theory Spec2Isabelle
  imports Complex_Main "HOL-Library.Char_ord" "HOL-Library.List_Lexorder"
begin

section \<open>Values\<close>

text \<open>
  A JavaScript value as the settings code sees it: the two nullish values, booleans,
  numbers, strings, arrays and objects. A finite number is the rational it denotes, the two
  zeros being one; \<^verbatim>\<open>NaN\<close> and the two infinities are the numbers that are not finite.
  Where the change engine adds or multiplies, the operation is the one of the runtime and
  an argument of the model, since its rounding shows in the value stored. Strings are
  lists of 8-bit characters.

  An object is the ordered list of its own properties, each key once. \<open>JObj\<close> is an
  object whose prototype is \<^verbatim>\<open>Object.prototype\<close>, as \<^verbatim>\<open>JSON.parse\<close>, an object literal
  and \<^verbatim>\<open>structuredClone\<close> make it; \<open>JObjP p\<close> is an object whose prototype has been
  replaced by \<open>p\<close>, which is \<^verbatim>\<open>null\<close> or an object. \<open>JBuiltin\<close> is an object that belongs
  to the runtime and not to the data, named by its path: \<^verbatim>\<open>Object.prototype\<close> and the
  functions it holds. Such an object is what a property read finds when the key is not an
  own property of the value read.
\<close>

datatype nonfinite = NaN | PosInfinity | NegInfinity

datatype jsval =
    JUndef
  | JNull
  | JBool bool
  | JNum rat
  | JNonFinite nonfinite
  | JStr string
  | JArr "jsval list"
  | JObj "(string \<times> jsval) list"
  | JObjP jsval "(string \<times> jsval) list"
  | JBuiltin string

text \<open>\<^verbatim>\<open>v === undefined || v === null\<close>, the test behind \<^verbatim>\<open>??\<close> and \<^verbatim>\<open>?.\<close>.\<close>

fun nullish :: "jsval \<Rightarrow> bool" where
  "nullish JUndef = True"
| "nullish JNull = True"
| "nullish _ = False"

text \<open>\<^verbatim>\<open>a ?? b\<close>.\<close>

definition orElse :: "jsval \<Rightarrow> jsval \<Rightarrow> jsval" where
  "orElse a b = (if nullish a then b else a)"

text \<open>Truthiness, as \<^verbatim>\<open>if (v)\<close> and \<^verbatim>\<open>!v\<close> decide it.\<close>

fun truthy :: "jsval \<Rightarrow> bool" where
  "truthy JUndef = False"
| "truthy JNull = False"
| "truthy (JBool b) = b"
| "truthy (JNum n) = (n \<noteq> 0)"
| "truthy (JNonFinite n) = (n \<noteq> NaN)"
| "truthy (JStr s) = (s \<noteq> [])"
| "truthy (JArr _) = True"
| "truthy (JObj _) = True"
| "truthy (JObjP _ _) = True"
| "truthy (JBuiltin _) = True"

text \<open>
  \<^verbatim>\<open>a === b\<close>. Primitives compare by value, and \<^verbatim>\<open>NaN\<close> is equal to nothing. Two
  arrays or two objects are identical only when they are the same reference; values that
  come from different JSON documents never are, so the comparison of two such values is
  false. An object of the runtime is identical to itself.
\<close>

definition strictEq :: "jsval \<Rightarrow> jsval \<Rightarrow> bool" where
  "strictEq a b =
     (case a of
        JArr _ \<Rightarrow> False
      | JObj _ \<Rightarrow> False
      | JObjP _ _ \<Rightarrow> False
      | JNonFinite NaN \<Rightarrow> False
      | _ \<Rightarrow> a = b)"

text \<open>\<^verbatim>\<open>typeof v === "number"\<close> and \<^verbatim>\<open>Array.isArray(v)\<close>.\<close>

fun isNumber :: "jsval \<Rightarrow> bool" where
  "isNumber (JNum _) = True"
| "isNumber (JNonFinite _) = True"
| "isNumber _ = False"

fun isArray :: "jsval \<Rightarrow> bool" where
  "isArray (JArr _) = True"
| "isArray _ = False"

text \<open>An object held as a finite map of its own properties; a missing key reads as
  \<^verbatim>\<open>undefined\<close>.\<close>

type_synonym container = "string \<rightharpoonup> jsval"

definition getKey :: "container \<Rightarrow> string \<Rightarrow> jsval" where
  "getKey c k = (case c k of None \<Rightarrow> JUndef | Some v \<Rightarrow> v)"

text \<open>A JavaScript \<^verbatim>\<open>Set\<close> of strings: insertion order, no duplicates.\<close>

definition setAdd :: "string list \<Rightarrow> string \<Rightarrow> string list" where
  "setAdd xs x = (if x \<in> set xs then xs else xs @ [x])"

text \<open>\<^verbatim>\<open>xs.join(sep)\<close> on strings.\<close>

fun joinWith :: "string \<Rightarrow> string list \<Rightarrow> string" where
  "joinWith sep [] = []"
| "joinWith sep [x] = x"
| "joinWith sep (x # y # ys) = x @ sep @ joinWith sep (y # ys)"

text \<open>
  Decimal rendering of a natural number, and the string conversion of the runtime on
  the values where it is easy to state: strings, booleans, the nullish values, integers,
  the numbers that are not finite, arrays (the elements joined by commas, a nullish element
  as the empty string) and objects with the standard prototype. A number that is not an
  integer is rendered by its integer part, an object with a replaced prototype like any
  object and an object of the runtime by its name, which is not what the runtime prints. The functions below take the conversion
  \<^verbatim>\<open>String(v)\<close> / \<^verbatim>\<open>v.toString()\<close> as an argument; \<open>showValue\<close> instantiates it where
  a statement is evaluated on a concrete input.
\<close>

fun digitChar :: "nat \<Rightarrow> char" where
  "digitChar n = char_of (48 + n mod 10)"

function showNat :: "nat \<Rightarrow> string" where
  "showNat n = (if n < 10 then [digitChar n] else showNat (n div 10) @ [digitChar n])"
  by pat_completeness auto
termination
  by (relation "measure id") auto

declare showNat.simps [simp del]

fun showValue :: "jsval \<Rightarrow> string" where
  "showValue JUndef = ''undefined''"
| "showValue JNull = ''null''"
| "showValue (JBool b) = (if b then ''true'' else ''false'')"
| "showValue (JNum n) =
     (if n < 0 then ''-'' @ showNat (nat \<lfloor>- n\<rfloor>) else showNat (nat \<lfloor>n\<rfloor>))"
| "showValue (JStr s) = s"
| "showValue (JArr xs) =
     joinWith '','' (map (\<lambda>x. if x = JUndef \<or> x = JNull then [] else showValue x) xs)"
| "showValue (JObj _) = ''[object Object]''"
| "showValue (JNonFinite n) =
     (case n of NaN \<Rightarrow> ''NaN'' | PosInfinity \<Rightarrow> ''Infinity'' | NegInfinity \<Rightarrow> ''-Infinity'')"
| "showValue (JObjP _ _) = ''[object Object]''"
| "showValue (JBuiltin name) = name"

text \<open>
  The own enumerable properties of a value, as the spread \<^verbatim>\<open>{ ...v }\<close> copies them:
  those of an object, the indexed elements of an array, the indexed characters of a
  string, and none for any other value.
\<close>

fun ownEntries :: "jsval \<Rightarrow> (string \<times> jsval) list" where
  "ownEntries (JObj kvs) = kvs"
| "ownEntries (JObjP p kvs) = kvs"
| "ownEntries (JArr xs) = zip (map showNat [0..<length xs]) xs"
| "ownEntries (JStr s) = zip (map showNat [0..<length s]) (map (\<lambda>c. JStr [c]) s)"
| "ownEntries _ = []"

text \<open>\<^verbatim>\<open>v[k]\<close> on a value that is not nullish: an own property, or the \<^verbatim>\<open>length\<close> of an
  array or a string.\<close>

fun getProp :: "jsval \<Rightarrow> string \<Rightarrow> jsval" where
  "getProp (JArr xs) k =
     (if k = ''length'' then JNum (of_nat (length xs))
      else getKey (map_of (ownEntries (JArr xs))) k)"
| "getProp (JStr s) k =
     (if k = ''length'' then JNum (of_nat (length s))
      else getKey (map_of (ownEntries (JStr s))) k)"
| "getProp v k = getKey (map_of (ownEntries v)) k"

text \<open>\<^verbatim>\<open>v?.[k]\<close>.\<close>

definition getPropOpt :: "jsval \<Rightarrow> string \<Rightarrow> jsval" where
  "getPropOpt v k = (if nullish v then JUndef else getProp v k)"

text \<open>\<^verbatim>\<open>obj[k] = v\<close> on a list of own properties: an existing key keeps its place.\<close>

definition objSet :: "(string \<times> jsval) list \<Rightarrow> string \<Rightarrow> jsval \<Rightarrow> (string \<times> jsval) list" where
  "objSet kvs k v =
     (if k \<in> fst ` set kvs then map (\<lambda>(k', v'). if k' = k then (k', v) else (k', v')) kvs
      else kvs @ [(k, v)])"


section \<open>Property reads and writes\<close>

text \<open>
  A read \<^verbatim>\<open>v[k]\<close> finds the own property of that key and otherwise what the value
  inherits along its prototype chain. What the standard prototypes hold belongs to the
  runtime, so it is an argument: \<open>inherited v k\<close> is what \<^verbatim>\<open>v[k]\<close> finds for a value \<open>v\<close>
  that has the prototype of its kind (\<^verbatim>\<open>Object.prototype\<close> for an object,
  \<^verbatim>\<open>Array.prototype\<close> for an array, and so on) and no own property \<open>k\<close>. It is a function
  of the runtime for a key such as \<^verbatim>\<open>constructor\<close> or \<^verbatim>\<open>toString\<close>, the prototype
  itself for the key \<^verbatim>\<open>__proto__\<close>, and \<^verbatim>\<open>undefined\<close> where nothing is inherited. For an
  object of the runtime it answers every key.
\<close>

text \<open>The own property of a value under a key: a listed property, an element of an
  array, a character of a string, or the \<^verbatim>\<open>length\<close> of the two.\<close>

fun ownProperty :: "jsval \<Rightarrow> string \<Rightarrow> jsval option" where
  "ownProperty (JArr xs) k =
     (if k = ''length'' then Some (JNum (of_nat (length xs)))
      else map_of (ownEntries (JArr xs)) k)"
| "ownProperty (JStr s) k =
     (if k = ''length'' then Some (JNum (of_nat (length s)))
      else map_of (ownEntries (JStr s)) k)"
| "ownProperty v k = map_of (ownEntries v) k"

text \<open>
  The chain above a prototype \<open>p\<close> that has replaced the standard one: the first own
  property of a key on \<open>p\<close> and on the replaced prototypes above it, and the object at
  which the chain goes on into the standard prototypes; that object is \<^verbatim>\<open>null\<close> when
  the chain ends before.
\<close>

fun chainOwn :: "jsval \<Rightarrow> string \<Rightarrow> jsval option" where
  "chainOwn (JObjP p kvs) k = (case map_of kvs k of Some x \<Rightarrow> Some x | None \<Rightarrow> chainOwn p k)"
| "chainOwn v k = ownProperty v k"

fun chainEnd :: "jsval \<Rightarrow> jsval" where
  "chainEnd (JObjP p kvs) = chainEnd p"
| "chainEnd v = v"

text \<open>
  What an object whose prototype is \<open>p\<close> inherits under a key. The key \<^verbatim>\<open>__proto__\<close> is
  an accessor of \<^verbatim>\<open>Object.prototype\<close>: when the chain reaches it, its getter answers with
  the prototype of the object that is read, which is \<open>p\<close>.
\<close>

definition inheritedFrom :: "(jsval \<Rightarrow> string \<Rightarrow> jsval) \<Rightarrow> jsval \<Rightarrow> string \<Rightarrow> jsval" where
  "inheritedFrom inherited p k =
     (case chainOwn p k of
        Some x \<Rightarrow> x
      | None \<Rightarrow>
          if chainEnd p = JNull then JUndef
          else if k = ''__proto__'' then p
          else inherited (chainEnd p) k)"

text \<open>\<^verbatim>\<open>v[k]\<close> on a value that is not nullish.\<close>

definition getMember :: "(jsval \<Rightarrow> string \<Rightarrow> jsval) \<Rightarrow> jsval \<Rightarrow> string \<Rightarrow> jsval" where
  "getMember inherited v k =
     (case v of
        JObjP p kvs \<Rightarrow>
          (case map_of kvs k of Some x \<Rightarrow> x | None \<Rightarrow> inheritedFrom inherited p k)
      | _ \<Rightarrow> (case ownProperty v k of Some x \<Rightarrow> x | None \<Rightarrow> inherited v k))"

text \<open>
  An object of the model that the engine writes to: its own properties and its prototype,
  which is \<^verbatim>\<open>Object.prototype\<close> until an assignment replaces it.
\<close>

datatype proto = ObjectPrototype | Replaced jsval

record object =
  properties :: container
  prototype :: proto

definition emptyObject :: object where
  "emptyObject = \<lparr>properties = Map.empty, prototype = ObjectPrototype\<rparr>"

text \<open>\<^verbatim>\<open>obj[k]\<close> on an object of the model.\<close>

definition readProperty :: "(jsval \<Rightarrow> string \<Rightarrow> jsval) \<Rightarrow> object \<Rightarrow> string \<Rightarrow> jsval" where
  "readProperty inherited obj k =
     (case properties obj k of
        Some x \<Rightarrow> x
      | None \<Rightarrow>
          (case prototype obj of
             ObjectPrototype \<Rightarrow> inherited (JObj []) k
           | Replaced p \<Rightarrow> inheritedFrom inherited p k))"

text \<open>
  \<^verbatim>\<open>obj[k] = v\<close>. An assignment writes the own property of that key, new or not. The one
  exception is the key \<^verbatim>\<open>__proto__\<close> on an object that has no own property of that name
  and whose chain reaches the accessor of \<^verbatim>\<open>Object.prototype\<close> before any property of
  that name: then the setter of the accessor is called. It replaces the prototype of the
  object when the value is an object or \<^verbatim>\<open>null\<close>, and does nothing for any other value.
  The properties that the standard prototypes hold are writable, so no assignment to an
  object throws.
\<close>

fun canBePrototype :: "jsval \<Rightarrow> bool" where
  "canBePrototype JNull = True"
| "canBePrototype (JArr _) = True"
| "canBePrototype (JObj _) = True"
| "canBePrototype (JObjP _ _) = True"
| "canBePrototype (JBuiltin _) = True"
| "canBePrototype _ = False"

definition reachesProtoAccessor :: "proto \<Rightarrow> bool" where
  "reachesProtoAccessor pr =
     (case pr of
        ObjectPrototype \<Rightarrow> True
      | Replaced p \<Rightarrow> chainOwn p ''__proto__'' = None \<and> chainEnd p \<noteq> JNull)"

definition writeProperty :: "object \<Rightarrow> string \<Rightarrow> jsval \<Rightarrow> object" where
  "writeProperty obj k v =
     (if k = ''__proto__'' \<and> properties obj k = None \<and> reachesProtoAccessor (prototype obj)
      then (if canBePrototype v then obj\<lparr>prototype := Replaced v\<rparr> else obj)
      else obj\<lparr>properties := (properties obj)(k \<mapsto> v)\<rparr>)"

text \<open>
  \<^verbatim>\<open>const o = { ...entries }; o[k] = v\<close>: the object \<open>o\<close>. The spread defines the entries
  as own properties of a new object with the standard prototype.
\<close>

definition freshWith :: "(string \<times> jsval) list \<Rightarrow> string \<Rightarrow> jsval \<Rightarrow> jsval" where
  "freshWith kvs k v =
     (if k = ''__proto__'' \<and> k \<notin> fst ` set kvs
      then (if canBePrototype v then JObjP v kvs else JObj kvs)
      else JObj (objSet kvs k v))"

text \<open>
  What an object inherits from \<^verbatim>\<open>Object.prototype\<close> in a runtime that has not altered it;
  \<open>objectInherited\<close> instantiates \<open>inherited\<close> where a statement is evaluated on a concrete
  input. It is the runtime's answer for objects only.
\<close>

definition objectPrototypeKeys :: "string list" where
  "objectPrototypeKeys =
     [''__defineGetter__'', ''__defineSetter__'', ''__lookupGetter__'', ''__lookupSetter__'',
      ''hasOwnProperty'', ''isPrototypeOf'', ''propertyIsEnumerable'', ''toLocaleString'',
      ''toString'', ''valueOf'']"

definition objectInherited :: "jsval \<Rightarrow> string \<Rightarrow> jsval" where
  "objectInherited v k =
     (if k = ''__proto__'' then JBuiltin ''Object.prototype''
      else if k = ''constructor'' then JBuiltin ''Object''
      else if k \<in> set objectPrototypeKeys then JBuiltin (''Object.prototype.'' @ k)
      else JUndef)"
section \<open>Archive writer: shape-preserving write-back\<close>

text \<open>
  \<^verbatim>\<open>setConfigValue(existing, value)\<close> of \<^verbatim>\<open>3mf/writer.js\<close>: a nullish value leaves the
  entry alone; otherwise the value is rendered once and replicated over an existing array,
  where an empty array becomes a one-element array, or stored as a scalar.
\<close>

definition setConfigValue :: "(jsval \<Rightarrow> string) \<Rightarrow> jsval \<Rightarrow> jsval \<Rightarrow> jsval" where
  "setConfigValue toString existing v =
     (if v = JUndef \<or> v = JNull then existing
      else let asString = toString v in
        (case existing of
           JArr xs \<Rightarrow> if length xs = 0 then JArr [JStr asString]
                      else JArr (map (\<lambda>_. JStr asString) xs)
         | _ \<Rightarrow> JStr asString))"

text \<open>The vendor config being rewritten, with the set of keys touched so far.\<close>

record writer_state =
  cfg :: container
  touchedKeys :: "string list"

text \<open>\<^verbatim>\<open>setShapedConfigValue({ cfg, touchedKeys, key, value })\<close>.\<close>

definition setShapedConfigValue ::
  "(jsval \<Rightarrow> string) \<Rightarrow> writer_state \<Rightarrow> string \<Rightarrow> jsval \<Rightarrow> writer_state" where
  "setShapedConfigValue toString st key v =
     st\<lparr>cfg := (cfg st)(key \<mapsto> setConfigValue toString (getKey (cfg st) key) v),
        touchedKeys := setAdd (touchedKeys st) key\<rparr>"

text \<open>\<^verbatim>\<open>setDirectConfigValue({ cfg, touchedKeys, key, value })\<close>.\<close>

definition setDirectConfigValue :: "writer_state \<Rightarrow> string \<Rightarrow> jsval \<Rightarrow> writer_state" where
  "setDirectConfigValue st key v =
     (if v = JUndef \<or> v = JNull then st
      else st\<lparr>cfg := (cfg st)(key \<mapsto> v), touchedKeys := setAdd (touchedKeys st) key\<rparr>)"

section \<open>Archive writer: bookkeeping of modified settings\<close>

text \<open>
  String helpers of the runtime, on 8-bit strings: \<^verbatim>\<open>s.split(c)\<close> for a one-character
  separator and \<^verbatim>\<open>s.trim()\<close> over the ASCII white space.
\<close>

fun splitOn :: "char \<Rightarrow> string \<Rightarrow> string list" where
  "splitOn c [] = [[]]"
| "splitOn c (x # xs) =
     (if x = c then [] # splitOn c xs
      else (case splitOn c xs of [] \<Rightarrow> [[x]] | y # ys \<Rightarrow> (x # y) # ys))"

definition isSpace :: "char \<Rightarrow> bool" where
  "isSpace c = (c \<in> set [CHR '' '', CHR 0x09, CHR 0x0A, CHR 0x0B, CHR 0x0C, CHR 0x0D])"

definition trim :: "string \<Rightarrow> string" where
  "trim s = rev (dropWhile isSpace (rev (dropWhile isSpace s)))"

text \<open>\<^verbatim>\<open>new Set(items)\<close>.\<close>

definition newSet :: "string list \<Rightarrow> string list" where
  "newSet items = fold (\<lambda>x s. setAdd s x) items []"

text \<open>The static category table \<^verbatim>\<open>DIFFERENT_SETTINGS_GROUP_KEYS\<close>.\<close>

definition DIFFERENT_SETTINGS_GROUP_KEYS_print :: "string list" where
  "DIFFERENT_SETTINGS_GROUP_KEYS_print =
     [''layer_height'', ''initial_layer_print_height'', ''wall_loops'', ''top_shell_layers'',
      ''bottom_shell_layers'', ''sparse_infill_density'', ''sparse_infill_pattern'',
      ''outer_wall_speed'', ''inner_wall_speed'', ''sparse_infill_speed'',
      ''initial_layer_speed'', ''enable_support'', ''brim_width'', ''raft_layers'',
      ''default_print_profile'']"

definition DIFFERENT_SETTINGS_GROUP_KEYS_filament :: "string list" where
  "DIFFERENT_SETTINGS_GROUP_KEYS_filament =
     [''compatible_printers'', ''eng_plate_temp'', ''hot_plate_temp'', ''fan_max_speed'',
      ''first_x_layer_fan_speed'', ''nozzle_temperature'',
      ''nozzle_temperature_initial_layer'', ''filament_type'']"

definition DIFFERENT_SETTINGS_GROUP_KEYS_printer :: "string list" where
  "DIFFERENT_SETTINGS_GROUP_KEYS_printer = [''printer_model'', ''nozzle_diameter'']"

text \<open>\<^verbatim>\<open>arr[index]\<close>: \<^verbatim>\<open>undefined\<close> beyond the end.\<close>

definition elemAt :: "jsval list \<Rightarrow> nat \<Rightarrow> jsval" where
  "elemAt xs i = (if i < length xs then xs ! i else JUndef)"

text \<open>
  \<^verbatim>\<open>parseDifferentSettingsToSystem(existing)\<close>: always three groups; a group that is
  not a string reads as empty; keys are trimmed and empty keys dropped.
\<close>

definition parseDifferentSettingsToSystem :: "jsval \<Rightarrow> string list list" where
  "parseDifferentSettingsToSystem existing =
     (let arr = (case existing of JArr xs \<Rightarrow> xs | _ \<Rightarrow> [])
      in map (\<lambda>index.
            let raw = (case elemAt arr index of JStr s \<Rightarrow> s | _ \<Rightarrow> [])
            in filter (\<lambda>k. k \<noteq> []) (map trim (splitOn CHR '';'' raw)))
          [0, 1, 2])"

text \<open>\<^verbatim>\<open>buildExistingIndexByKey(groups)\<close>: a key listed in several groups keeps the
  last group.\<close>

definition buildExistingIndexByKey :: "string list list \<Rightarrow> (string \<rightharpoonup> nat)" where
  "buildExistingIndexByKey groups =
     fold (\<lambda>(keys, index) indexByKey. fold (\<lambda>key m. m(key \<mapsto> index)) keys indexByKey)
       (zip groups [0..<length groups]) Map.empty"

text \<open>\<^verbatim>\<open>resolveDifferentSettingsGroupIndex(key, existingIndexByKey)\<close>.\<close>

definition resolveDifferentSettingsGroupIndex :: "string \<Rightarrow> (string \<rightharpoonup> nat) \<Rightarrow> nat" where
  "resolveDifferentSettingsGroupIndex key existingIndexByKey =
     (case existingIndexByKey key of
        Some existing \<Rightarrow> existing
      | None \<Rightarrow>
          if key \<in> set DIFFERENT_SETTINGS_GROUP_KEYS_print then 0
          else if key \<in> set DIFFERENT_SETTINGS_GROUP_KEYS_filament then 1
          else if key \<in> set DIFFERENT_SETTINGS_GROUP_KEYS_printer then 2
          else 0)"

text \<open>
  \<^verbatim>\<open>formatDifferentSettingsGroup(keys)\<close>. The default \<^verbatim>\<open>sort()\<close> orders strings by
  their code units, which is the lexicographic order on character lists.
\<close>

definition formatDifferentSettingsGroup :: "string list \<Rightarrow> string" where
  "formatDifferentSettingsGroup keys =
     (if length keys = 0 then [] else joinWith '';'' (sort keys))"

text \<open>
  \<^verbatim>\<open>areConfigValuesEqual(a, b)\<close>. Vendor config values are strings or arrays of strings,
  on which \<^verbatim>\<open>===\<close> is comparison by value.
\<close>

definition areConfigValuesEqual :: "jsval \<Rightarrow> jsval \<Rightarrow> bool" where
  "areConfigValuesEqual a b =
     (case (a, b) of
        (JArr xs, JArr ys) \<Rightarrow>
          if length xs \<noteq> length ys then False
          else list_all (\<lambda>(x, y). strictEq x y) (zip xs ys)
      | (JArr xs, _) \<Rightarrow> False
      | (_, JArr ys) \<Rightarrow> False
      | _ \<Rightarrow> strictEq a b)"

text \<open>
  \<^verbatim>\<open>updateDifferentSettingsToSystem({ existing, base, updated, touchedKeys })\<close>;
  \<open>noteTouchedKey\<close> is the body of its loop over the touched keys. The result is the
  array of the three group strings.
\<close>

definition noteTouchedKey ::
  "container \<Rightarrow> container \<Rightarrow> (string \<rightharpoonup> nat) \<Rightarrow> string \<Rightarrow> string list list \<Rightarrow> string list list" where
  "noteTouchedKey base updated existingIndexByKey key merged =
     (if key = ''different_settings_to_system'' then merged
      else if areConfigValuesEqual (getKey base key) (getKey updated key) then merged
      else let groupIndex = resolveDifferentSettingsGroupIndex key existingIndexByKey
           in merged[groupIndex := setAdd (merged ! groupIndex) key])"

definition updateDifferentSettingsToSystem ::
  "jsval \<Rightarrow> container \<Rightarrow> container \<Rightarrow> string list \<Rightarrow> string list" where
  "updateDifferentSettingsToSystem existing base updated touched =
     (let groups = parseDifferentSettingsToSystem existing;
          merged = map newSet groups;
          existingIndexByKey = buildExistingIndexByKey groups;
          merged = fold (noteTouchedKey base updated existingIndexByKey) touched merged;
          merged = (if length (merged ! 1) > 0
                    then merged[1 := setAdd (merged ! 1) ''compatible_printers'']
                    else merged)
      in map formatDifferentSettingsGroup merged)"

text \<open>The touched keys whose value after the write differs from the value before it, in
  the order they were touched.\<close>

definition touchedAndChanged :: "container \<Rightarrow> container \<Rightarrow> string list \<Rightarrow> string list" where
  "touchedAndChanged base updated touched =
     filter (\<lambda>k. k \<noteq> ''different_settings_to_system''
               \<and> \<not> areConfigValuesEqual (getKey base k) (getKey updated k)) touched"

section \<open>Archive parser: geometry hints\<close>

text \<open>
  \<^verbatim>\<open>buildGeometryFromBounding(bounding)\<close> of \<^verbatim>\<open>3mf/parser.js\<close>. A bounding box is a
  triple of numbers; \<open>None\<close> is the absent box, for which the function returns
  \<^verbatim>\<open>null\<close>. The ratio is \<^verbatim>\<open>null\<close> when the smallest extent is zero.
\<close>

record geometry =
  bounding_box_mm :: "rat \<times> rat \<times> rat"
  max_dimension_mm :: rat
  min_dimension_mm :: rat
  height_to_min_footprint_ratio :: "rat option"
  is_slender :: bool

definition buildGeometryFromBounding :: "(rat \<times> rat \<times> rat) option \<Rightarrow> geometry option" where
  "buildGeometryFromBounding bounding =
     (case bounding of
        None \<Rightarrow> None
      | Some (x, y, z) \<Rightarrow>
          let maxDimension = max x (max y z);
              minDimension = min x (min y z);
              ratio = (if minDimension = 0 then None else Some (z / minDimension))
          in Some \<lparr>bounding_box_mm = (x, y, z),
                   max_dimension_mm = maxDimension,
                   min_dimension_mm = minDimension,
                   height_to_min_footprint_ratio = ratio,
                   is_slender = (case ratio of None \<Rightarrow> False
                                 | Some r \<Rightarrow> if r \<noteq> 0 then r > 4 else False)\<rparr>)"

text \<open>\<^verbatim>\<open>object.geometry ?? buildGeometryFromBounding(object.bounding_box_mm)\<close> in
  \<^verbatim>\<open>buildPlates\<close>.\<close>

definition objectGeometry ::
  "geometry option \<Rightarrow> (rat \<times> rat \<times> rat) option \<Rightarrow> geometry option" where
  "objectGeometry explicit bounding =
     (case explicit of Some g \<Rightarrow> Some g | None \<Rightarrow> buildGeometryFromBounding bounding)"

section \<open>Config mapping table\<close>

text \<open>
  \<^verbatim>\<open>3mf/configMapping.js\<close>. The conversions \<^verbatim>\<open>Number(v)\<close>, \<^verbatim>\<open>String(v)\<close> and
  \<^verbatim>\<open>Number.parseFloat(s)\<close> belong to the JavaScript runtime and are arguments here:
  \<open>toNumber\<close> and \<open>parseFloat\<close> return \<open>None\<close> for \<^verbatim>\<open>NaN\<close>.
\<close>

datatype mode = Shaped | Direct

record mapping =
  configKey :: string
  targetKey :: string
  mode :: mode
  parse :: "jsval \<Rightarrow> jsval"
  serialize :: "jsval \<Rightarrow> jsval"

text \<open>\<^verbatim>\<open>first(value)\<close> and \<^verbatim>\<open>unwrapSingle(value)\<close>.\<close>

definition first :: "jsval \<Rightarrow> jsval" where
  "first v = (case v of JArr xs \<Rightarrow> elemAt xs 0 | _ \<Rightarrow> v)"

definition unwrapSingle :: "jsval \<Rightarrow> jsval" where
  "unwrapSingle v = (case v of JArr xs \<Rightarrow> if length xs = 1 then xs ! 0 else v | _ \<Rightarrow> v)"

text \<open>\<^verbatim>\<open>numberOrNull(value)\<close> and \<^verbatim>\<open>percentToNumber(value)\<close>;
  \<^verbatim>\<open>str.replace("%", "")\<close> removes the first percent sign only.\<close>

definition numberOrNull :: "(jsval \<Rightarrow> rat option) \<Rightarrow> jsval \<Rightarrow> jsval" where
  "numberOrNull toNumber v =
     (if v = JUndef \<or> v = JNull then JNull
      else (case toNumber v of None \<Rightarrow> JNull | Some num \<Rightarrow> JNum num))"

fun removeFirst :: "char \<Rightarrow> string \<Rightarrow> string" where
  "removeFirst c [] = []"
| "removeFirst c (x # xs) = (if x = c then xs else x # removeFirst c xs)"

definition percentToNumber ::
  "(jsval \<Rightarrow> string) \<Rightarrow> (string \<Rightarrow> rat option) \<Rightarrow> jsval \<Rightarrow> jsval" where
  "percentToNumber toString parseFloat v =
     (if v = JUndef \<or> v = JNull then JNull
      else let str = trim (removeFirst CHR ''%'' (toString v))
           in (case parseFloat str of None \<Rightarrow> JNull | Some parsed \<Rightarrow> JNum parsed))"

definition parseNumber :: "(jsval \<Rightarrow> rat option) \<Rightarrow> jsval \<Rightarrow> jsval" where
  "parseNumber toNumber v = numberOrNull toNumber (first v)"

definition parsePercent ::
  "(jsval \<Rightarrow> string) \<Rightarrow> (string \<Rightarrow> rat option) \<Rightarrow> jsval \<Rightarrow> jsval" where
  "parsePercent toString parseFloat v = percentToNumber toString parseFloat (first v)"

definition parseString :: "jsval \<Rightarrow> jsval" where
  "parseString v = (let raw = first v in if raw = JUndef \<or> raw = JNull then JNull else raw)"

definition parseSupportFlag :: "jsval \<Rightarrow> jsval" where
  "parseSupportFlag v =
     (let raw = first v
      in if raw = JUndef \<or> raw = JNull then JNull
         else JBool (strictEq raw (JStr ''1'') \<or> strictEq raw (JNum 1)
                     \<or> strictEq raw (JBool True) \<or> strictEq raw (JStr ''true'')))"

definition formatPercent :: "(jsval \<Rightarrow> string) \<Rightarrow> jsval \<Rightarrow> jsval" where
  "formatPercent toString v =
     (if v = JUndef \<or> v = JNull then JUndef else JStr (toString v @ ''%''))"

definition formatSupportFlag :: "jsval \<Rightarrow> jsval" where
  "formatSupportFlag v =
     (if v = JUndef \<or> v = JNull then JUndef else JStr (if truthy v then ''1'' else ''0''))"

definition passthrough :: "jsval \<Rightarrow> jsval" where
  "passthrough v = v"

definition GLOBAL_PROCESS_MAPPINGS ::
  "(jsval \<Rightarrow> rat option) \<Rightarrow> (jsval \<Rightarrow> string) \<Rightarrow> (string \<Rightarrow> rat option) \<Rightarrow> mapping list" where
  "GLOBAL_PROCESS_MAPPINGS toNumber toString parseFloat =
     [\<lparr>configKey = ''layer_height'', targetKey = ''layer_height_mm'', mode = Shaped,
        parse = parseNumber toNumber, serialize = passthrough\<rparr>,
      \<lparr>configKey = ''initial_layer_print_height'', targetKey = ''first_layer_height_mm'', mode = Shaped,
        parse = parseNumber toNumber, serialize = passthrough\<rparr>,
      \<lparr>configKey = ''wall_loops'', targetKey = ''wall_line_count'', mode = Shaped,
        parse = parseNumber toNumber, serialize = passthrough\<rparr>,
      \<lparr>configKey = ''top_shell_layers'', targetKey = ''top_layers'', mode = Shaped,
        parse = parseNumber toNumber, serialize = passthrough\<rparr>,
      \<lparr>configKey = ''bottom_shell_layers'', targetKey = ''bottom_layers'', mode = Shaped,
        parse = parseNumber toNumber, serialize = passthrough\<rparr>,
      \<lparr>configKey = ''sparse_infill_density'', targetKey = ''infill_density_percent'', mode = Direct,
        parse = parsePercent toString parseFloat, serialize = formatPercent toString\<rparr>,
      \<lparr>configKey = ''sparse_infill_pattern'', targetKey = ''infill_pattern'', mode = Direct,
        parse = parseString, serialize = passthrough\<rparr>,
      \<lparr>configKey = ''nozzle_temperature'', targetKey = ''nozzle_temp_c'', mode = Shaped,
        parse = parseNumber toNumber, serialize = passthrough\<rparr>,
      \<lparr>configKey = ''nozzle_temperature_initial_layer'', targetKey = ''nozzle_temp_c'', mode = Shaped,
        parse = parseNumber toNumber, serialize = passthrough\<rparr>,
      \<lparr>configKey = ''eng_plate_temp'', targetKey = ''bed_temp_c'', mode = Shaped,
        parse = parseNumber toNumber, serialize = passthrough\<rparr>,
      \<lparr>configKey = ''hot_plate_temp'', targetKey = ''bed_temp_c'', mode = Shaped,
        parse = parseNumber toNumber, serialize = passthrough\<rparr>,
      \<lparr>configKey = ''fan_max_speed'', targetKey = ''fan_speed_percent'', mode = Shaped,
        parse = parseNumber toNumber, serialize = passthrough\<rparr>,
      \<lparr>configKey = ''first_x_layer_fan_speed'', targetKey = ''first_layers_fan_percent'', mode = Shaped,
        parse = parseNumber toNumber, serialize = passthrough\<rparr>,
      \<lparr>configKey = ''enable_support'', targetKey = ''supports_enabled'', mode = Direct,
        parse = parseSupportFlag, serialize = formatSupportFlag\<rparr>]"

definition SPEED_MAPPINGS :: "(string \<times> string) list" where
  "SPEED_MAPPINGS =
     [(''outer_wall_speed'', ''wall_outer''), (''inner_wall_speed'', ''wall_inner''),
      (''sparse_infill_speed'', ''infill''), (''initial_layer_speed'', ''first_layer'')]"

definition ALLOWED_EXTRA_CONFIG_KEYS :: "string list" where
  "ALLOWED_EXTRA_CONFIG_KEYS =
     [''travel_speed'', ''bridge_speed'', ''small_perimeter_speed'', ''top_surface_speed'',
      ''gap_infill_speed'', ''support_speed'', ''support_interface_speed'',
      ''internal_solid_infill_speed'', ''initial_layer_infill_speed'',
      ''overhang_1_4_speed'', ''overhang_2_4_speed'', ''overhang_3_4_speed'',
      ''overhang_4_4_speed'', ''travel_acceleration'', ''travel_jerk'',
      ''outer_wall_acceleration'', ''inner_wall_acceleration'',
      ''sparse_infill_acceleration'', ''initial_layer_acceleration'',
      ''top_surface_acceleration'', ''default_acceleration'', ''default_jerk'',
      ''infill_jerk'', ''inner_wall_jerk'', ''outer_wall_jerk'', ''initial_layer_jerk'',
      ''top_surface_jerk'', ''overhang_fan_speed'', ''overhang_fan_threshold'',
      ''overhang_threshold_participating_cooling'', ''slow_down_layer_time'',
      ''slow_down_min_speed'', ''fan_min_speed'', ''fan_cooling_layer_time'',
      ''full_fan_speed_layer'', ''close_fan_the_first_x_layers'',
      ''enable_overhang_bridge_fan'', ''line_width'', ''outer_wall_line_width'',
      ''inner_wall_line_width'', ''sparse_infill_line_width'',
      ''initial_layer_line_width'', ''internal_solid_infill_line_width'',
      ''top_surface_line_width'', ''support_line_width'', ''wall_sequence'',
      ''wall_generator'', ''detect_thin_wall'', ''detect_overhang_wall'',
      ''only_one_wall_first_layer'', ''min_bead_width'', ''min_feature_size'',
      ''wall_distribution_count'', ''wall_transition_angle'', ''wall_transition_length'',
      ''wall_transition_filter_deviation'', ''precise_outer_wall'',
      ''top_surface_pattern'', ''bottom_surface_pattern'', ''ironing_type'',
      ''ironing_speed'', ''ironing_flow'', ''ironing_spacing'', ''ironing_pattern'',
      ''top_solid_infill_flow_ratio'', ''top_one_wall_type'', ''sparse_infill_anchor'',
      ''sparse_infill_anchor_max'', ''infill_direction'', ''infill_wall_overlap'',
      ''infill_combination'', ''minimum_sparse_infill_area'',
      ''internal_solid_infill_pattern'', ''filter_out_gap_fill'',
      ''support_threshold_angle'', ''support_style'', ''support_type'',
      ''support_top_z_distance'', ''support_bottom_z_distance'',
      ''support_object_xy_distance'', ''support_on_build_plate_only'',
      ''support_critical_regions_only'', ''support_interface_top_layers'',
      ''support_interface_bottom_layers'', ''support_interface_spacing'',
      ''support_interface_pattern'', ''support_base_pattern'',
      ''support_base_pattern_spacing'', ''support_expansion'',
      ''independent_support_layer_height'', ''tree_support_branch_angle'',
      ''tree_support_branch_diameter'', ''tree_support_branch_diameter_angle'',
      ''tree_support_branch_distance'', ''tree_support_wall_count'', ''brim_width'',
      ''brim_type'', ''brim_object_gap'', ''skirt_distance'', ''skirt_loops'',
      ''skirt_height'', ''raft_layers'', ''raft_contact_distance'', ''raft_expansion'',
      ''raft_first_layer_density'', ''raft_first_layer_expansion'', ''z_hop'',
      ''z_hop_types'', ''retraction_length'', ''retraction_speed'',
      ''retraction_minimum_travel'', ''retract_when_changing_layer'', ''wipe'',
      ''wipe_distance'', ''wipe_speed'', ''retract_before_wipe'', ''deretraction_speed'',
      ''filament_flow_ratio'', ''print_flow_ratio'', ''initial_layer_flow_ratio'',
      ''bridge_flow'', ''filament_max_volumetric_speed'', ''seam_position'', ''seam_gap'',
      ''seam_slope_type'', ''seam_slope_conditional'', ''seam_slope_inner_walls'',
      ''seam_slope_steps'', ''seam_slope_start_height'', ''seam_slope_min_length'',
      ''xy_hole_compensation'', ''xy_contour_compensation'', ''elefant_foot_compensation'',
      ''resolution'', ''slice_closing_radius'', ''spiral_mode'', ''spiral_mode_smooth'',
      ''spiral_mode_max_xy_smoothing'', ''fuzzy_skin'', ''fuzzy_skin_thickness'',
      ''fuzzy_skin_point_distance'', ''thick_bridges'', ''bridge_no_support'',
      ''bridge_angle'', ''max_bridge_length'', ''internal_bridge_support_thickness'',
      ''pressure_advance'', ''enable_pressure_advance'', ''enable_arc_fitting'',
      ''enable_prime_tower'', ''prime_tower_width'', ''prime_tower_rib_width'',
      ''prime_tower_lift_height'', ''prime_tower_max_speed'', ''prime_tower_brim_width'',
      ''wipe_tower_x'', ''wipe_tower_y'', ''avoid_crossing_wall'',
      ''reduce_crossing_wall'', ''reduce_infill_retraction'', ''complete_objects'',
      ''print_sequence'', ''exclude_object'']"

definition CONSUMED_CONFIG_KEYS :: "string list" where
  "CONSUMED_CONFIG_KEYS =
     map configKey (GLOBAL_PROCESS_MAPPINGS (\<lambda>_. None) (\<lambda>_. []) (\<lambda>_. None))
     @ map fst SPEED_MAPPINGS @ [''raft_layers'', ''different_settings_to_system'']"

text \<open>
  A vendor config is the list of the own entries of the parsed JSON object, each key
  once. \<^verbatim>\<open>normalizeConfigEntries(config)\<close> unwraps one-element arrays.
\<close>

type_synonym config = "(string \<times> jsval) list"

definition normalizeConfigEntries :: "config \<Rightarrow> config" where
  "normalizeConfigEntries config = map (\<lambda>(key, v). (key, unwrapSingle v)) config"

definition configGet :: "config \<Rightarrow> string \<Rightarrow> jsval" where
  "configGet config key = getKey (map_of config) key"

text \<open>
  The loop of \<^verbatim>\<open>mapConfigToSettings\<close> over the mapping table: \<open>populateMapping\<close> is
  its body, on the pair of the settings being built and the set of populated target keys.
\<close>

definition populateMapping ::
  "config \<Rightarrow> mapping \<Rightarrow> container \<times> string list \<Rightarrow> container \<times> string list" where
  "populateMapping normalizedConfig m st =
     (let parsed = parse m (configGet normalizedConfig (configKey m))
      in if parsed = JNull \<or> parsed = JUndef then st
         else if targetKey m \<in> set (snd st) then st
         else ((fst st)(targetKey m \<mapsto> parsed), setAdd (snd st) (targetKey m)))"

text \<open>\<^verbatim>\<open>applyAdhesionFromConfig({ config, settings })\<close>.\<close>

definition positive :: "jsval \<Rightarrow> bool" where
  "positive v = (case v of JNum n \<Rightarrow> n \<noteq> 0 \<and> n > 0 | _ \<Rightarrow> False)"

definition applyAdhesionFromConfig ::
  "(jsval \<Rightarrow> rat option) \<Rightarrow> config \<Rightarrow> container \<Rightarrow> container" where
  "applyAdhesionFromConfig toNumber config settings =
     (let raft = parseNumber toNumber (configGet config ''raft_layers'');
          brim = parseNumber toNumber (configGet config ''brim_width'')
      in if positive raft then settings(''adhesion_type'' \<mapsto> JStr ''raft'')
         else if positive brim then settings(''adhesion_type'' \<mapsto> JStr ''brim'')
         else settings)"

text \<open>\<^verbatim>\<open>applySpeedsFromConfig({ config, settings })\<close>; the state of its loop is the
  copied speeds object with the \<^verbatim>\<open>touched\<close> flag.\<close>

definition applySpeedMapping ::
  "(jsval \<Rightarrow> rat option) \<Rightarrow> config \<Rightarrow> string \<times> string
     \<Rightarrow> (string \<times> jsval) list \<times> bool \<Rightarrow> (string \<times> jsval) list \<times> bool" where
  "applySpeedMapping toNumber config m st =
     (let v = parseNumber toNumber (configGet config (fst m))
      in if v = JNull \<or> v = JUndef then st
         else (objSet (fst st) (snd m) v, True))"

definition applySpeedsFromConfig ::
  "(jsval \<Rightarrow> rat option) \<Rightarrow> config \<Rightarrow> container \<Rightarrow> container" where
  "applySpeedsFromConfig toNumber config settings =
     (let speeds = ownEntries (orElse (getKey settings ''speeds'') (JObj []));
          st = fold (applySpeedMapping toNumber config) SPEED_MAPPINGS (speeds, False)
      in if snd st then settings(''speeds'' \<mapsto> JObj (fst st)) else settings)"

text \<open>\<^verbatim>\<open>mergeRemainingConfig({ config, settings })\<close>.\<close>

definition mergeEntry :: "string \<times> jsval \<Rightarrow> container \<Rightarrow> container" where
  "mergeEntry e settings =
     (if fst e \<in> set CONSUMED_CONFIG_KEYS then settings
      else if fst e \<notin> set ALLOWED_EXTRA_CONFIG_KEYS then settings
      else if getKey settings (fst e) \<noteq> JUndef then settings
      else settings(fst e \<mapsto> snd e))"

definition mergeRemainingConfig :: "config \<Rightarrow> container \<Rightarrow> container" where
  "mergeRemainingConfig config settings = fold mergeEntry config settings"

text \<open>\<^verbatim>\<open>mapConfigToSettings({ config, baseSettings })\<close>.\<close>

definition mapConfigToSettings ::
  "(jsval \<Rightarrow> rat option) \<Rightarrow> (jsval \<Rightarrow> string) \<Rightarrow> (string \<Rightarrow> rat option)
     \<Rightarrow> config \<Rightarrow> container \<Rightarrow> container" where
  "mapConfigToSettings toNumber toString parseFloat config baseSettings =
     (let normalizedConfig = normalizeConfigEntries config;
          st = fold (populateMapping normalizedConfig)
                 (GLOBAL_PROCESS_MAPPINGS toNumber toString parseFloat) (baseSettings, []);
          next = applyAdhesionFromConfig toNumber normalizedConfig (fst st);
          next = applySpeedsFromConfig toNumber normalizedConfig next
      in mergeRemainingConfig normalizedConfig next)"

text \<open>The first mapping in declaration order that targets \<open>t\<close> and whose parse of the
  config is neither \<^verbatim>\<open>null\<close> nor \<^verbatim>\<open>undefined\<close>.\<close>

definition firstParsed :: "config \<Rightarrow> string \<Rightarrow> mapping list \<Rightarrow> mapping option" where
  "firstParsed normalizedConfig t ms =
     find (\<lambda>m. targetKey m = t
              \<and> \<not> nullish (parse m (configGet normalizedConfig (configKey m)))) ms"

text \<open>
  An instance of \<^verbatim>\<open>Number(v)\<close> for concrete inputs: numbers as themselves and strings
  of decimal digits as the natural number they write.
\<close>

definition isDigit :: "char \<Rightarrow> bool" where
  "isDigit c = (CHR ''0'' \<le> c \<and> c \<le> CHR ''9'')"

definition readNat :: "string \<Rightarrow> nat" where
  "readNat s = foldl (\<lambda>n c. 10 * n + (of_char c - 48)) 0 s"

definition readValue :: "jsval \<Rightarrow> rat option" where
  "readValue v =
     (case v of
        JNum n \<Rightarrow> Some n
      | JStr s \<Rightarrow> if s \<noteq> [] \<and> list_all isDigit s then Some (of_nat (readNat s)) else None
      | _ \<Rightarrow> None)"

section \<open>Response validation\<close>

text \<open>
  \<^verbatim>\<open>llm/responseValidator.js\<close>. An exception is a value of \<open>error\<close>: the module's own
  \<^verbatim>\<open>InvalidLlmResponseError\<close>, with what its message says, or a \<^verbatim>\<open>TypeError\<close> of
  the runtime (a property read on \<^verbatim>\<open>null\<close>, a call of a method that a value does not
  have, a spread of a value that is not iterable).
\<close>

datatype message =
    InvalidJson
  | MustBeObject
  | MissingChangesArray
  | MissingParameter nat
  | MissingNewValue jsval
  | UnsupportedScope jsval jsval

datatype error = InvalidLlmResponseError message | TypeError

text \<open>A validated change and a validated response: the objects that \<^verbatim>\<open>validateChange\<close>
  and \<^verbatim>\<open>parseLlmResponse\<close> return. A field that is absent holds \<^verbatim>\<open>undefined\<close>.\<close>

record llm_change =
  change_scope :: jsval
  change_target :: jsval
  change_parameter :: jsval
  change_newValue :: jsval
  change_changeType :: jsval
  change_reason :: jsval

record llm_response =
  response_version :: jsval
  response_changes :: "llm_change list"
  response_globalRationale :: jsval
  response_warnings :: jsval

text \<open>\<^verbatim>\<open>validateChange(change, index)\<close>. Reading a property of a nullish entry throws
  a \<^verbatim>\<open>TypeError\<close>. Only the scope is checked against its allowed values.\<close>

definition validateChange :: "jsval \<Rightarrow> nat \<Rightarrow> error + llm_change" where
  "validateChange change index =
     (if nullish change then Inl TypeError
      else if \<not> truthy (getProp change ''parameter'')
        then Inl (InvalidLlmResponseError (MissingParameter index))
      else if getProp change ''newValue'' = JUndef
        then Inl (InvalidLlmResponseError (MissingNewValue (getProp change ''parameter'')))
      else let scope = orElse (getProp change ''scope'') (JStr ''global'');
               allowedScopes = [JStr ''global'', JStr ''object'']
           in if \<not> list_ex (strictEq scope) allowedScopes
              then Inl (InvalidLlmResponseError
                         (UnsupportedScope scope (getProp change ''parameter'')))
              else Inr \<lparr>change_scope = scope,
                        change_target = orElse (getProp change ''target'') JNull,
                        change_parameter = getProp change ''parameter'',
                        change_newValue = getProp change ''newValue'',
                        change_changeType =
                          orElse (getProp change ''changeType'') (JStr ''absolute''),
                        change_reason = orElse (getProp change ''reason'') (JStr '''')\<rparr>)"

text \<open>\<^verbatim>\<open>parsed.changes.map(validateChange)\<close>: the first entry that fails ends the map.\<close>

fun validateChanges :: "jsval list \<Rightarrow> nat \<Rightarrow> error + llm_change list" where
  "validateChanges [] index = Inr []"
| "validateChanges (change # rest) index =
     (case validateChange change index of
        Inl e \<Rightarrow> Inl e
      | Inr validated \<Rightarrow>
          (case validateChanges rest (Suc index) of
             Inl e \<Rightarrow> Inl e
           | Inr others \<Rightarrow> Inr (validated # others)))"

text \<open>\<^verbatim>\<open>typeof v === "object"\<close>.\<close>

fun isObjectType :: "jsval \<Rightarrow> bool" where
  "isObjectType JNull = True"
| "isObjectType (JArr _) = True"
| "isObjectType (JObj _) = True"
| "isObjectType (JObjP _ _) = True"
| "isObjectType (JBuiltin name) = (name = ''Object.prototype'')"
| "isObjectType _ = False"

text \<open>\<^verbatim>\<open>parseLlmResponse(content)\<close>; \<open>jsonParse\<close> is \<^verbatim>\<open>JSON.parse\<close>, with \<open>None\<close>
  where it throws.\<close>

definition parseLlmResponse ::
  "(string \<Rightarrow> jsval option) \<Rightarrow> jsval \<Rightarrow> error + llm_response" where
  "parseLlmResponse jsonParse content =
     (case (case content of
              JStr s \<Rightarrow> (case jsonParse s of
                           None \<Rightarrow> Inl (InvalidLlmResponseError InvalidJson)
                         | Some v \<Rightarrow> Inr v)
            | _ \<Rightarrow> Inr content) of
        Inl e \<Rightarrow> Inl e
      | Inr parsed \<Rightarrow>
          if \<not> truthy parsed \<or> \<not> isObjectType parsed
            then Inl (InvalidLlmResponseError MustBeObject)
          else (case getProp parsed ''changes'' of
                  JArr entries \<Rightarrow>
                    (case validateChanges entries 0 of
                       Inl e \<Rightarrow> Inl e
                     | Inr validatedChanges \<Rightarrow>
                         Inr \<lparr>response_version = orElse (getProp parsed ''version'') (JNum 1),
                              response_changes = validatedChanges,
                              response_globalRationale = getProp parsed ''globalRationale'',
                              response_warnings =
                                orElse (getProp parsed ''warnings'') (JArr [])\<rparr>)
                | _ \<Rightarrow> Inl (InvalidLlmResponseError MissingChangesArray)))"

section \<open>Object override store\<close>

text \<open>
  \<^verbatim>\<open>utils/objectOverrides.js\<close>. \<open>conv\<close> is the string conversion of the runtime for
  values that are not strings; a string converts to itself.
\<close>

definition String :: "(jsval \<Rightarrow> string) \<Rightarrow> jsval \<Rightarrow> string" where
  "String conv v = (case v of JStr s \<Rightarrow> s | _ \<Rightarrow> conv v)"

definition makeObjectKey :: "(jsval \<Rightarrow> string) \<Rightarrow> jsval \<Rightarrow> jsval \<Rightarrow> string" where
  "makeObjectKey conv objectName plateIndex =
     (let name = orElse objectName (JStr ''object'')
      in if nullish plateIndex then String conv name
         else String conv plateIndex @ ''::'' @ String conv name)"

text \<open>The store maps a key to the override record kept under it; the records are
  objects. A key is looked up among the own keys of the store: the parser gives every
  plate an index, so that the key of a target has the form \<^verbatim>\<open>index::name\<close>, which is
  not the name of a property that the store inherits. \<^verbatim>\<open>ensureObjectOverride\<close> returns
  the store and the key of the record it hands out.\<close>

type_synonym overrides = "string \<rightharpoonup> object"

definition ensureObjectOverride ::
  "(jsval \<Rightarrow> string) \<Rightarrow> overrides \<Rightarrow> jsval \<Rightarrow> jsval \<Rightarrow> overrides \<times> string" where
  "ensureObjectOverride conv store objectName plateIndex =
     (let key = makeObjectKey conv objectName plateIndex
      in (case store key of
            None \<Rightarrow>
              (store(key \<mapsto>
                 \<lparr>properties = [''plateIndex'' \<mapsto> plateIndex, ''objectName'' \<mapsto> objectName],
                  prototype = ObjectPrototype\<rparr>),
               key)
          | Some _ \<Rightarrow> (store, key)))"

definition recordAt :: "overrides \<Rightarrow> string \<Rightarrow> object" where
  "recordAt store key = (case store key of None \<Rightarrow> emptyObject | Some r \<Rightarrow> r)"

section \<open>Change application engine\<close>

text \<open>
  \<^verbatim>\<open>apply/changes.js\<close>. The normalized model has the shape the parser builds: plates
  with their objects, the global process settings, the override store and the
  user-modified settings. The fields that the engine never reads are left out. The model
  is a tree, as parsing builds it: no two of its containers are the same object, and no
  value that a response carries is the same reference as a value of the model. The
  translator \<^verbatim>\<open>t\<close> is outside the engine: a warning is the message key with its
  variables. An exception that leaves \<^verbatim>\<open>applyLlmChanges\<close> is the result \<open>Inl\<close>.

  The engine relies on four operations of the runtime, which are arguments of the model:
  the conversion \<^verbatim>\<open>String(v)\<close> of a value that is not a string, the sum \<^verbatim>\<open>a + b\<close> and the
  product \<^verbatim>\<open>a * b\<close> of two numbers, which round as IEEE doubles do, and the properties
  that a value inherits.
\<close>

record runtime =
  runtime_String :: "jsval \<Rightarrow> string"
  runtime_add :: "jsval \<Rightarrow> jsval \<Rightarrow> jsval"
  runtime_multiply :: "jsval \<Rightarrow> jsval \<Rightarrow> jsval"
  runtime_inherited :: "jsval \<Rightarrow> string \<Rightarrow> jsval"

text \<open>The settings of an object on a plate, as the parser passes them on from the
  metadata: an object, or a primitive value, which is \<^verbatim>\<open>undefined\<close> for an object
  without settings.\<close>

datatype settings = SettingsObject object | SettingsPrimitive jsval

record plate_object =
  object_name :: jsval
  object_settings :: settings

record plate =
  plate_index :: jsval
  plate_objects :: "plate_object list"

record model =
  model_plates :: "plate list"
  model_globalProcess :: object
  model_perObjectOverrides :: overrides
  model_userModifiedSettings :: "jsval list option"

datatype warning =
    UpstreamWarning jsval
  | UserSettingLockedWarning jsval
  | UnknownParameterWarning jsval
  | ObjectNotFoundWarning jsval jsval
  | UnknownObjectParameterWarning jsval jsval
  | RelativeChangeTypeWarning jsval

record diff =
  diff_scope :: string
  diff_target :: "(jsval \<times> jsval) option"
  diff_parameter :: jsval
  diff_from :: jsval
  diff_to :: jsval
  diff_reason :: jsval

record apply_result =
  result_updated :: model
  result_warnings :: "warning list"
  result_diffs :: "diff list"

text \<open>\<^verbatim>\<open>parseSpeedKey(parameter)\<close>: \<^verbatim>\<open>parameter.startsWith\<close> is a method of strings
  only, so any other parameter throws.\<close>

definition parseSpeedKey :: "jsval \<Rightarrow> error + string option" where
  "parseSpeedKey parameter =
     (case parameter of
        JStr p \<Rightarrow>
          if take (length ''speeds.'') p \<noteq> ''speeds.'' then Inr None
          else Inr (Some (case splitOn CHR ''.'' (drop (length ''speeds.'') p) of
                            [] \<Rightarrow> [] | key # _ \<Rightarrow> key))
      | _ \<Rightarrow> Inl TypeError)"

text \<open>
  \<^verbatim>\<open>resolveParameter(container, parameter)\<close>: the current value and the setter. The
  setter is the container that results from calling it with a value. Both reads,
  \<^verbatim>\<open>container.speeds?.[speedKey]\<close> and \<^verbatim>\<open>container[parameter]\<close>, find inherited
  properties as well as own ones.
\<close>

definition resolveParameter ::
  "(jsval \<Rightarrow> string \<Rightarrow> jsval) \<Rightarrow> object \<Rightarrow> jsval \<Rightarrow> error + jsval \<times> (jsval \<Rightarrow> object)" where
  "resolveParameter inherited c parameter =
     (case parseSpeedKey parameter of
        Inl e \<Rightarrow> Inl e
      | Inr (Some speedKey) \<Rightarrow>
          (let speeds = readProperty inherited c ''speeds''
           in Inr (if nullish speeds then JUndef else getMember inherited speeds speedKey,
                   \<lambda>v. writeProperty c ''speeds''
                          (freshWith (if truthy speeds then ownEntries speeds else [])
                             speedKey v)))
      | Inr None \<Rightarrow>
          (case parameter of
             JStr p \<Rightarrow> Inr (readProperty inherited c p, \<lambda>v. writeProperty c p v)
           | _ \<Rightarrow> Inl TypeError))"

text \<open>
  \<^verbatim>\<open>computeNewValue({ currentValue, change, warnings, t })\<close>. The sum and the product
  are those of the runtime. The caller compares the result with \<^verbatim>\<open>===\<close> against the
  current value. When the function returns the current value itself the two are the same
  reference, whatever the value is; this is \<open>SameAsCurrent\<close>. Any other result is a
  number just computed or the value that the response carries.
\<close>

datatype proposal = SameAsCurrent | Proposed jsval

definition computeNewValue ::
  "runtime \<Rightarrow> jsval \<Rightarrow> llm_change \<Rightarrow> warning list \<Rightarrow> proposal \<times> warning list" where
  "computeNewValue rt currentValue change ws =
     (if strictEq (change_changeType change) (JStr ''relative'') then
        if \<not> isNumber currentValue \<or> \<not> isNumber (change_newValue change)
          then (SameAsCurrent, ws @ [RelativeChangeTypeWarning (change_parameter change)])
        else (Proposed (runtime_add rt currentValue
                          (runtime_multiply rt currentValue (change_newValue change))),
              ws)
      else (Proposed (change_newValue change), ws))"

text \<open>\<^verbatim>\<open>proposed === currentValue\<close>, and the value that \<^verbatim>\<open>proposed\<close> holds. A value is
  identical to itself unless it is \<^verbatim>\<open>NaN\<close>.\<close>

definition sameAsCurrent :: "proposal \<Rightarrow> jsval \<Rightarrow> bool" where
  "sameAsCurrent proposed currentValue =
     (case proposed of
        SameAsCurrent \<Rightarrow> currentValue \<noteq> JNonFinite NaN
      | Proposed v \<Rightarrow> strictEq v currentValue)"

definition proposedValue :: "proposal \<Rightarrow> jsval \<Rightarrow> jsval" where
  "proposedValue proposed currentValue =
     (case proposed of SameAsCurrent \<Rightarrow> currentValue | Proposed v \<Rightarrow> v)"

text \<open>\<^verbatim>\<open>formatDiff({ change, from, to, scope, target })\<close>.\<close>

definition formatDiff ::
  "llm_change \<Rightarrow> jsval \<Rightarrow> jsval \<Rightarrow> string \<Rightarrow> (jsval \<times> jsval) option \<Rightarrow> diff" where
  "formatDiff change fromValue toValue scope target =
     \<lparr>diff_scope = scope, diff_target = target, diff_parameter = change_parameter change,
      diff_from = fromValue, diff_to = toValue,
      diff_reason = orElse (change_reason change) (JStr '''')\<rparr>"

text \<open>\<^verbatim>\<open>applyGlobalChange({ updated, change, warnings, t })\<close>: the model, the warnings
  and the diff, or \<open>None\<close> for \<^verbatim>\<open>null\<close>.\<close>

definition applyGlobalChange ::
  "runtime \<Rightarrow> model \<Rightarrow> llm_change \<Rightarrow> warning list
     \<Rightarrow> error + model \<times> warning list \<times> diff option" where
  "applyGlobalChange rt updated change ws =
     (case resolveParameter (runtime_inherited rt) (model_globalProcess updated)
             (change_parameter change) of
        Inl e \<Rightarrow> Inl e
      | Inr (currentValue, setter) \<Rightarrow>
          if currentValue = JUndef
            then Inr (updated, ws @ [UnknownParameterWarning (change_parameter change)], None)
          else let (proposed, ws') = computeNewValue rt currentValue change ws
               in if sameAsCurrent proposed currentValue then Inr (updated, ws', None)
                  else Inr (updated\<lparr>model_globalProcess :=
                                       setter (proposedValue proposed currentValue)\<rparr>,
                            ws',
                            Some (formatDiff change currentValue
                                    (proposedValue proposed currentValue) ''global'' None)))"

text \<open>\<^verbatim>\<open>resolveObjectTarget(change)\<close>: the object name and the plate index.\<close>

definition resolveObjectTarget :: "llm_change \<Rightarrow> jsval \<times> jsval" where
  "resolveObjectTarget change =
     (orElse (orElse (getPropOpt (change_target change) ''objectName'')
                     (getPropOpt (change_target change) ''name''))
             (change_parameter change),
      orElse (getPropOpt (change_target change) ''plateIndex'') JNull)"

text \<open>\<^verbatim>\<open>findPlate(plates, objectName, plateIndex)\<close>: the position in \<^verbatim>\<open>plates\<close> of the
  plate that \<^verbatim>\<open>find\<close> returns.\<close>

definition plateMatches :: "jsval \<Rightarrow> jsval \<Rightarrow> plate \<Rightarrow> bool" where
  "plateMatches objectName plateIndex p =
     (if plateIndex \<noteq> JNull \<and> \<not> strictEq (plate_index p) plateIndex then False
      else list_ex (\<lambda>obj. strictEq (object_name obj) objectName) (plate_objects p))"

fun findIndex :: "('a \<Rightarrow> bool) \<Rightarrow> 'a list \<Rightarrow> nat option" where
  "findIndex P [] = None"
| "findIndex P (x # xs) = (if P x then Some 0 else map_option Suc (findIndex P xs))"

definition findPlate :: "plate list \<Rightarrow> jsval \<Rightarrow> jsval \<Rightarrow> nat option" where
  "findPlate plates objectName plateIndex = findIndex (plateMatches objectName plateIndex) plates"

text \<open>
  \<^verbatim>\<open>syncPlateOverride({ plate, objectName, parameter, value })\<close>. Settings that are
  falsy are replaced by a new object first. An assignment to a property of a primitive
  value throws a \<^verbatim>\<open>TypeError\<close>, the module being strict code; only the key
  \<^verbatim>\<open>__proto__\<close> does not, since its setter returns without any effect on a primitive.
\<close>

definition syncPlateOverride :: "plate \<Rightarrow> jsval \<Rightarrow> string \<Rightarrow> jsval \<Rightarrow> error + plate" where
  "syncPlateOverride p objectName parameter v =
     (case findIndex (\<lambda>item. strictEq (object_name item) objectName) (plate_objects p) of
        None \<Rightarrow> Inr p
      | Some j \<Rightarrow>
          let obj = plate_objects p ! j;
              withSettings = (\<lambda>s. p\<lparr>plate_objects :=
                                      (plate_objects p)[j := obj\<lparr>object_settings :=
                                                                   SettingsObject s\<rparr>]\<rparr>)
          in case object_settings obj of
               SettingsObject s \<Rightarrow> Inr (withSettings (writeProperty s parameter v))
             | SettingsPrimitive x \<Rightarrow>
                 if \<not> truthy x then Inr (withSettings (writeProperty emptyObject parameter v))
                 else if parameter = ''__proto__'' then Inr p
                 else Inl TypeError)"

text \<open>\<^verbatim>\<open>applyObjectChange({ updated, change, warnings, t })\<close>.\<close>

definition applyObjectChange ::
  "runtime \<Rightarrow> model \<Rightarrow> llm_change \<Rightarrow> warning list
     \<Rightarrow> error + model \<times> warning list \<times> diff option" where
  "applyObjectChange rt updated change ws =
     (let (targetName, plateIndex) = resolveObjectTarget change
      in case findPlate (model_plates updated) targetName plateIndex of
           None \<Rightarrow>
             Inr (updated, ws @ [ObjectNotFoundWarning targetName (change_parameter change)],
                  None)
         | Some i \<Rightarrow>
             let p = model_plates updated ! i;
                 (store, key) = ensureObjectOverride (runtime_String rt)
                                  (model_perObjectOverrides updated) targetName (plate_index p);
                 ensured = updated\<lparr>model_perObjectOverrides := store\<rparr>
             in case resolveParameter (runtime_inherited rt) (recordAt store key)
                       (change_parameter change) of
                  Inl e \<Rightarrow> Inl e
                | Inr (currentValue, setter) \<Rightarrow>
                    (case (if currentValue = JUndef
                           then map_sum id fst
                                  (resolveParameter (runtime_inherited rt)
                                     (model_globalProcess updated) (change_parameter change))
                           else Inr currentValue) of
                       Inl e \<Rightarrow> Inl e
                     | Inr baseValue \<Rightarrow>
                         if baseValue = JUndef
                           then Inr (ensured,
                                     ws @ [UnknownObjectParameterWarning
                                             (change_parameter change) targetName],
                                     None)
                         else let (proposed, ws') = computeNewValue rt baseValue change ws
                              in if sameAsCurrent proposed baseValue then Inr (ensured, ws', None)
                                 else (case syncPlateOverride p targetName
                                              (String (runtime_String rt)
                                                 (change_parameter change))
                                              (proposedValue proposed baseValue) of
                                         Inl e \<Rightarrow> Inl e
                                       | Inr synced \<Rightarrow>
                                           Inr (ensured\<lparr>
                                                  model_perObjectOverrides :=
                                                    store(key \<mapsto>
                                                      setter (proposedValue proposed baseValue)),
                                                  model_plates :=
                                                    (model_plates updated)[i := synced]\<rparr>,
                                                ws',
                                                Some (formatDiff change baseValue
                                                        (proposedValue proposed baseValue)
                                                        ''object''
                                                        (Some (targetName, plate_index p)))))))"

text \<open>\<^verbatim>\<open>applySingleChange({ updated, change, warnings, t })\<close>.\<close>

definition applySingleChange ::
  "runtime \<Rightarrow> model \<Rightarrow> llm_change \<Rightarrow> warning list
     \<Rightarrow> error + model \<times> warning list \<times> diff option" where
  "applySingleChange rt updated change ws =
     (let scope = orElse (change_scope change) (JStr ''global'')
      in if strictEq scope (JStr ''global'') then applyGlobalChange rt updated change ws
         else applyObjectChange rt updated change ws)"

text \<open>
  \<^verbatim>\<open>normalizeSettingKey(key)\<close>: lower case, then only \<^verbatim>\<open>[a-z0-9]\<close> is kept. Lower-casing
  acts on the ASCII capitals.
\<close>

definition toLowerCase :: "string \<Rightarrow> string" where
  "toLowerCase s =
     map (\<lambda>c. if CHR ''A'' \<le> c \<and> c \<le> CHR ''Z'' then char_of (of_char c + (32::nat)) else c) s"

definition normalizeSettingKey :: "(jsval \<Rightarrow> string) \<Rightarrow> jsval \<Rightarrow> string" where
  "normalizeSettingKey conv key =
     filter (\<lambda>c. (CHR ''a'' \<le> c \<and> c \<le> CHR ''z'') \<or> (CHR ''0'' \<le> c \<and> c \<le> CHR ''9''))
       (toLowerCase (String conv key))"

text \<open>\<^verbatim>\<open>buildUserModifiedLookup(userModifiedSettings)\<close>: the sets \<^verbatim>\<open>raw\<close> and
  \<^verbatim>\<open>normalized\<close>.\<close>

definition addUserModified ::
  "(jsval \<Rightarrow> string) \<Rightarrow> jsval \<Rightarrow> string list \<times> string list \<Rightarrow> string list \<times> string list" where
  "addUserModified conv entry lookup =
     (if \<not> truthy entry then lookup
      else let key = String conv entry
           in (setAdd (fst lookup) key,
               setAdd (snd lookup) (normalizeSettingKey conv (JStr key))))"

definition buildUserModifiedLookup ::
  "(jsval \<Rightarrow> string) \<Rightarrow> jsval list \<Rightarrow> string list \<times> string list" where
  "buildUserModifiedLookup conv userModifiedSettings =
     fold (addUserModified conv) userModifiedSettings ([], [])"

text \<open>\<^verbatim>\<open>isUserSettingLocked(parameter, lookup)\<close>. The set \<^verbatim>\<open>raw\<close> holds strings, so
  only a string parameter can be a member.\<close>

definition isUserSettingLocked ::
  "(jsval \<Rightarrow> string) \<Rightarrow> jsval \<Rightarrow> string list \<times> string list \<Rightarrow> bool" where
  "isUserSettingLocked conv parameter lookup =
     (if length (fst lookup) = 0 then False
      else if (case parameter of JStr p \<Rightarrow> p \<in> set (fst lookup) | _ \<Rightarrow> False) then True
      else normalizeSettingKey conv parameter \<in> set (snd lookup))"

text \<open>The body of the loop of \<^verbatim>\<open>applyLlmChanges\<close> over \<^verbatim>\<open>response.changes\<close>.\<close>

definition applyChange ::
  "runtime \<Rightarrow> bool \<Rightarrow> string list \<times> string list \<Rightarrow> apply_result \<Rightarrow> llm_change
     \<Rightarrow> error + apply_result" where
  "applyChange rt respectUserSettings userModified st change =
     (if respectUserSettings
         \<and> isUserSettingLocked (runtime_String rt) (change_parameter change) userModified
      then Inr (st\<lparr>result_warnings :=
                     result_warnings st @ [UserSettingLockedWarning (change_parameter change)]\<rparr>)
      else (case applySingleChange rt (result_updated st) change (result_warnings st) of
              Inl e \<Rightarrow> Inl e
            | Inr (updated, ws, result) \<Rightarrow>
                Inr \<lparr>result_updated = updated, result_warnings = ws,
                     result_diffs = (case result of None \<Rightarrow> result_diffs st
                                     | Some d \<Rightarrow> result_diffs st @ [d])\<rparr>))"

fun applyChanges ::
  "runtime \<Rightarrow> bool \<Rightarrow> string list \<times> string list \<Rightarrow> apply_result
     \<Rightarrow> llm_change list \<Rightarrow> error + apply_result" where
  "applyChanges rt respectUserSettings userModified st [] = Inr st"
| "applyChanges rt respectUserSettings userModified st (change # rest) =
     (case applyChange rt respectUserSettings userModified st change of
        Inl e \<Rightarrow> Inl e
      | Inr st' \<Rightarrow> applyChanges rt respectUserSettings userModified st' rest)"

text \<open>The spread \<^verbatim>\<open>[...(response.warnings ?? [])]\<close>: an array or a string is
  iterable, any other value that is not nullish is not.\<close>

definition spreadWarnings :: "jsval \<Rightarrow> error + jsval list" where
  "spreadWarnings w =
     (case orElse w (JArr []) of
        JArr xs \<Rightarrow> Inr xs
      | JStr s \<Rightarrow> Inr (map (\<lambda>c. JStr [c]) s)
      | _ \<Rightarrow> Inl TypeError)"

text \<open>
  \<^verbatim>\<open>applyLlmChanges({ normalized, response, respectUserSettings, i18n })\<close>. The clone of
  the model is the model itself here, since no function of this theory changes its
  argument in place.
\<close>

definition applyLlmChanges ::
  "runtime \<Rightarrow> model \<Rightarrow> llm_response \<Rightarrow> bool \<Rightarrow> error + apply_result" where
  "applyLlmChanges rt normalized response respectUserSettings =
     (case spreadWarnings (response_warnings response) of
        Inl e \<Rightarrow> Inl e
      | Inr upstream \<Rightarrow>
          let userModified = buildUserModifiedLookup (runtime_String rt)
                (case model_userModifiedSettings normalized of None \<Rightarrow> [] | Some xs \<Rightarrow> xs)
          in applyChanges rt respectUserSettings userModified
               \<lparr>result_updated = normalized,
                result_warnings = map UpstreamWarning upstream,
                result_diffs = []\<rparr>
               (response_changes response))"

section \<open>A sample runtime and a sample project\<close>

text \<open>
  The sum and the product of two numbers without rounding: on finite numbers the sum and
  the product of the rationals, on the others the IEEE rules. The runtime returns the same
  whenever the exact result of its operation is a double, as for \<open>4\<close> and \<open>-0.5\<close>.
\<close>

definition exactAdd :: "jsval \<Rightarrow> jsval \<Rightarrow> jsval" where
  "exactAdd a b =
     (case (a, b) of
        (JNum x, JNum y) \<Rightarrow> JNum (x + y)
      | (JNum x, JNonFinite n) \<Rightarrow> JNonFinite n
      | (JNonFinite n, JNum y) \<Rightarrow> JNonFinite n
      | (JNonFinite n, JNonFinite m) \<Rightarrow> JNonFinite (if n = m then n else NaN)
      | _ \<Rightarrow> JNonFinite NaN)"

definition scaleNonFinite :: "rat \<Rightarrow> nonfinite \<Rightarrow> nonfinite" where
  "scaleNonFinite x n =
     (if n = NaN \<or> x = 0 then NaN
      else if 0 < x then n
      else if n = PosInfinity then NegInfinity else PosInfinity)"

definition exactMultiply :: "jsval \<Rightarrow> jsval \<Rightarrow> jsval" where
  "exactMultiply a b =
     (case (a, b) of
        (JNum x, JNum y) \<Rightarrow> JNum (x * y)
      | (JNum x, JNonFinite n) \<Rightarrow> JNonFinite (scaleNonFinite x n)
      | (JNonFinite n, JNum y) \<Rightarrow> JNonFinite (scaleNonFinite y n)
      | (JNonFinite n, JNonFinite m) \<Rightarrow>
          JNonFinite (if n = NaN \<or> m = NaN then NaN
                      else if n = m then PosInfinity else NegInfinity)
      | _ \<Rightarrow> JNonFinite NaN)"

definition sampleRuntime :: runtime where
  "sampleRuntime =
     \<lparr>runtime_String = showValue, runtime_add = exactAdd, runtime_multiply = exactMultiply,
      runtime_inherited = objectInherited\<rparr>"

text \<open>
  The project used where a statement is evaluated on a concrete input: one plate with
  the object \<open>CalibrationCube\<close>, three global settings, no overrides yet, and one
  setting that the user has modified.
\<close>

definition sampleModel :: model where
  "sampleModel =
     \<lparr>model_plates =
        [\<lparr>plate_index = JNum 0,
          plate_objects = [\<lparr>object_name = JStr ''CalibrationCube'',
                            object_settings = SettingsPrimitive JUndef\<rparr>]\<rparr>],
      model_globalProcess =
        \<lparr>properties =
           [''wall_line_count'' \<mapsto> JNum 4, ''infill_pattern'' \<mapsto> JStr ''grid'',
            ''fan_speed_percent'' \<mapsto> JNum 30],
         prototype = ObjectPrototype\<rparr>,
      model_perObjectOverrides = Map.empty,
      model_userModifiedSettings = Some [JStr ''fan-speed-percent'']\<rparr>"

definition sampleChange :: "jsval \<Rightarrow> jsval \<Rightarrow> jsval \<Rightarrow> jsval \<Rightarrow> jsval \<Rightarrow> llm_change" where
  "sampleChange scope target parameter newValue changeType =
     \<lparr>change_scope = scope, change_target = target, change_parameter = parameter,
      change_newValue = newValue, change_changeType = changeType,
      change_reason = JStr ''''\<rparr>"

definition sampleResponse :: "llm_change list \<Rightarrow> llm_response" where
  "sampleResponse cs =
     \<lparr>response_version = JNum 1, response_changes = cs,
      response_globalRationale = JUndef, response_warnings = JArr []\<rparr>"

section \<open>Shape preservation\<close>

lemma setConfigValue_array:
  assumes "\<not> nullish v" and "xs \<noteq> []"
  shows "setConfigValue toString (JArr xs) v = JArr (replicate (length xs) (JStr (toString v)))"
proof -
  have "v \<noteq> JUndef" and "v \<noteq> JNull"
    using assms(1) by auto
  then show ?thesis
    using assms(2) by (simp add: setConfigValue_def map_replicate_const)
qed

lemma setConfigValue_empty_array:
  assumes "\<not> nullish v"
  shows "setConfigValue toString (JArr []) v = JArr [JStr (toString v)]"
proof -
  have "v \<noteq> JUndef" and "v \<noteq> JNull"
    using assms by auto
  then show ?thesis
    by (simp add: setConfigValue_def)
qed

lemma setConfigValue_scalar:
  assumes "\<not> nullish v" and "\<not> isArray existing"
  shows "setConfigValue toString existing v = JStr (toString v)"
proof -
  have "v \<noteq> JUndef" and "v \<noteq> JNull"
    using assms(1) by auto
  then show ?thesis
    using assms(2) by (cases existing) (simp_all add: setConfigValue_def)
qed

text \<open>
  Claim C5, as the code has it. Writing a non-nullish value for key \<open>K\<close> through the
  shaped setter: an array of length \<open>N \<ge> 1\<close> becomes an array of length \<open>N\<close> whose
  elements all are the rendered value; an empty array becomes a one-element array holding
  the rendered value; a scalar or absent entry becomes the rendered value as a scalar string.
  The key is recorded as touched and every other key is left as it was.
\<close>

theorem setShapedConfigValue_shape:
  "\<not> nullish v \<Longrightarrow>
     (\<forall>xs. getKey (cfg st) K = JArr xs \<and> xs \<noteq> [] \<longrightarrow>
        getKey (cfg (setShapedConfigValue toString st K v)) K
          = JArr (replicate (length xs) (JStr (toString v))))
   \<and> (getKey (cfg st) K = JArr [] \<longrightarrow>
        getKey (cfg (setShapedConfigValue toString st K v)) K = JArr [JStr (toString v)])
   \<and> (\<not> isArray (getKey (cfg st) K) \<longrightarrow>
        getKey (cfg (setShapedConfigValue toString st K v)) K = JStr (toString v))
   \<and> K \<in> set (touchedKeys (setShapedConfigValue toString st K v))
   \<and> (\<forall>K'. K' \<noteq> K \<longrightarrow> cfg (setShapedConfigValue toString st K v) K' = cfg st K')"
  by (simp add: setShapedConfigValue_def getKey_def setAdd_def
      setConfigValue_array setConfigValue_empty_array setConfigValue_scalar)

theorem setShapedConfigValue_shape_witness:
  "getKey (cfg (setShapedConfigValue showValue
      \<lparr>cfg = [''nozzle_temperature'' \<mapsto> JArr [JStr ''240'', JStr ''240'']], touchedKeys = []\<rparr>
      ''nozzle_temperature'' (JNum 250))) ''nozzle_temperature''
     = JArr [JStr ''250'', JStr ''250'']
   \<and> getKey (cfg (setShapedConfigValue showValue
      \<lparr>cfg = [''wall_loops'' \<mapsto> JStr ''2''], touchedKeys = []\<rparr>
      ''wall_loops'' (JNum 4))) ''wall_loops'' = JStr ''4''"
proof -
  let ?a = "\<lparr>cfg = [''nozzle_temperature'' \<mapsto> JArr [JStr ''240'', JStr ''240'']],
             touchedKeys = []\<rparr>"
  let ?b = "\<lparr>cfg = [''wall_loops'' \<mapsto> JStr ''2''], touchedKeys = []\<rparr>"
  have n: "\<not> nullish (JNum 250)" "\<not> nullish (JNum 4)"
    by simp_all
  have s250: "showNat 250 = ''250''" and s4: "showNat 4 = ''4''"
    by code_simp+
  have "getKey (cfg ?a) ''nozzle_temperature'' = JArr [JStr ''240'', JStr ''240'']"
    by (simp add: getKey_def)
  moreover have "\<not> isArray (getKey (cfg ?b) ''wall_loops'')"
    by (simp add: getKey_def)
  ultimately show ?thesis
    using setShapedConfigValue_shape [OF n(1), of ?a "''nozzle_temperature''" showValue]
      setShapedConfigValue_shape [OF n(2), of ?b "''wall_loops''" showValue]
    by (simp add: s250 s4 numeral_2_eq_2)
qed

text \<open>
  The claim as the specification words it, an array of length \<open>N\<close> stays an array of
  length \<open>N\<close>, fails for \<open>N = 0\<close>: the written entry has one element.
\<close>

theorem setShapedConfigValue_empty_array_counterexample:
  "getKey (cfg (setShapedConfigValue showValue
      \<lparr>cfg = [''fan_max_speed'' \<mapsto> JArr []], touchedKeys = []\<rparr>
      ''fan_max_speed'' (JStr ''40''))) ''fan_max_speed'' = JArr [JStr ''40'']
   \<and> length [JStr ''40''] \<noteq> length ([] :: jsval list)"
  by (simp add: setShapedConfigValue_def getKey_def setConfigValue_def)

section \<open>Bookkeeping groups\<close>

lemma length_parseDifferentSettingsToSystem [simp]:
  "length (parseDifferentSettingsToSystem existing) = 3"
  by (simp add: parseDifferentSettingsToSystem_def Let_def)

lemma set_setAdd [simp]: "set (setAdd xs x) = insert x (set xs)"
  by (auto simp: setAdd_def)

lemma distinct_setAdd [simp]: "distinct (setAdd xs x) = distinct xs"
  by (auto simp: setAdd_def)

lemma newSet_fold:
  "set (fold (\<lambda>x s. setAdd s x) items acc) = set items \<union> set acc
   \<and> (distinct acc \<longrightarrow> distinct (fold (\<lambda>x s. setAdd s x) items acc))"
  by (induction items arbitrary: acc) auto

lemma set_newSet [simp]: "set (newSet items) = set items"
  by (simp add: newSet_def newSet_fold)

lemma distinct_newSet [simp]: "distinct (newSet items)"
  by (simp add: newSet_def newSet_fold)

lemma fold_keys_index:
  "fold (\<lambda>key m. m(key \<mapsto> index)) keys m k = Some i \<Longrightarrow> m k = Some i \<or> i = index"
proof (induction keys arbitrary: m)
  case Nil
  then show ?case by simp
next
  case (Cons a keys)
  from Cons.prems have "fold (\<lambda>key m. m(key \<mapsto> index)) keys (m(a \<mapsto> index)) k = Some i"
    by (simp only: fold_simps comp_apply)
  from Cons.IH [OF this] show ?case
    by (auto split: if_splits)
qed

lemma fold_groups_index:
  fixes ps :: "(string list \<times> nat) list"
  defines "f \<equiv> (\<lambda>(keys, index) indexByKey. fold (\<lambda>key m. m(key \<mapsto> index)) keys indexByKey)"
  shows "fold f ps m k = Some i \<Longrightarrow> m k = Some i \<or> i \<in> snd ` set ps"
proof (induction ps arbitrary: m)
  case Nil
  then show ?case by simp
next
  case (Cons p ps)
  obtain keys index where p: "p = (keys, index)"
    by (cases p)
  from Cons.prems have "fold f ps (f p m) k = Some i"
    by simp
  from Cons.IH [OF this] show ?case
  proof
    assume "f p m k = Some i"
    then have "fold (\<lambda>key m. m(key \<mapsto> index)) keys m k = Some i"
      by (simp only: f_def p prod.case)
    from fold_keys_index [OF this] show ?thesis by (auto simp: p)
  next
    assume "i \<in> snd ` set ps"
    then show ?thesis by auto
  qed
qed

lemma buildExistingIndexByKey_bound:
  assumes "buildExistingIndexByKey groups k = Some i"
  shows "i < length groups"
proof -
  from fold_groups_index [OF assms [unfolded buildExistingIndexByKey_def]]
  have "i \<in> snd ` set (zip groups [0..<length groups])" by simp
  then have "i \<in> set [0..<length groups]"
    by (auto dest: set_zip_rightD)
  then show ?thesis by simp
qed

lemma resolveDifferentSettingsGroupIndex_bound:
  assumes "length groups = 3"
  shows "resolveDifferentSettingsGroupIndex key (buildExistingIndexByKey groups) < 3"
proof (cases "buildExistingIndexByKey groups key")
  case None
  then show ?thesis by (simp add: resolveDifferentSettingsGroupIndex_def)
next
  case (Some i)
  with buildExistingIndexByKey_bound [OF Some] assms show ?thesis
    by (simp add: resolveDifferentSettingsGroupIndex_def)
qed

lemma fold_noteTouchedKey:
  assumes "\<And>k. resolveDifferentSettingsGroupIndex k idx < length merged"
  shows "length (fold (noteTouchedKey base updated idx) touched merged) = length merged
    \<and> (\<forall>i < length merged.
          set (fold (noteTouchedKey base updated idx) touched merged ! i)
            = set (merged ! i)
              \<union> set (filter (\<lambda>k. resolveDifferentSettingsGroupIndex k idx = i)
                       (touchedAndChanged base updated touched))
        \<and> (distinct (merged ! i)
             \<longrightarrow> distinct (fold (noteTouchedKey base updated idx) touched merged ! i)))"
  using assms
proof (induction touched arbitrary: merged)
  case Nil
  then show ?case by (simp add: touchedAndChanged_def)
next
  case (Cons key touched)
  let ?m = "noteTouchedKey base updated idx key merged"
  have len: "length ?m = length merged"
    by (simp add: noteTouchedKey_def Let_def)
  have bound: "\<And>k. resolveDifferentSettingsGroupIndex k idx < length ?m"
    using Cons.prems len by simp
  note IH = Cons.IH [OF bound]
  have step: "\<forall>i < length merged.
      set (?m ! i) = set (merged ! i)
        \<union> set (filter (\<lambda>k. resolveDifferentSettingsGroupIndex k idx = i)
                 (touchedAndChanged base updated [key]))
      \<and> (distinct (merged ! i) \<longrightarrow> distinct (?m ! i))"
    using Cons.prems [of key]
    by (auto simp: noteTouchedKey_def Let_def touchedAndChanged_def nth_list_update)
  have app: "touchedAndChanged base updated (key # touched)
      = touchedAndChanged base updated [key] @ touchedAndChanged base updated touched"
    by (simp add: touchedAndChanged_def)
  show ?case
    using IH step len by (auto simp: app)
qed

lemma sort_distinct_eq:
  assumes "distinct (keys :: string list)"
  shows "sort keys = sorted_list_of_set (set keys)"
  using assms by (simp add: sorted_list_of_set_sort_remdups distinct_remdups_id)

lemma formatDifferentSettingsGroup_set:
  assumes "distinct keys"
  shows "formatDifferentSettingsGroup keys = joinWith '';'' (sorted_list_of_set (set keys))"
proof (cases keys)
  case Nil
  then show ?thesis by (simp add: formatDifferentSettingsGroup_def)
next
  case (Cons k ks)
  then show ?thesis
    using sort_distinct_eq [OF assms] by (simp add: formatDifferentSettingsGroup_def)
qed

text \<open>
  Claim C9. Let \<open>g i\<close> be the keys that the existing bookkeeping field lists in group
  \<open>i\<close> together with the touched keys whose value changed and that resolve to group
  \<open>i\<close>. Each of the three groups of the rewritten field is the keys of \<open>g i\<close> in
  lexicographic order joined by semicolons, the empty group being the empty string; the
  filament group (index 1) also holds \<open>compatible_printers\<close> whenever it is not empty.
\<close>

theorem updateDifferentSettingsToSystem_groups:
  "(let pre = parseDifferentSettingsToSystem existing;
        idx = buildExistingIndexByKey pre;
        changed = (\<lambda>i. filter (\<lambda>k. resolveDifferentSettingsGroupIndex k idx = i)
                          (touchedAndChanged base updated touched));
        g = (\<lambda>i. set (pre ! i) \<union> set (changed i))
    in updateDifferentSettingsToSystem existing base updated touched
       = [joinWith '';'' (sorted_list_of_set (g 0)),
          joinWith '';'' (sorted_list_of_set
             (if g 1 = {} then {} else insert ''compatible_printers'' (g 1))),
          joinWith '';'' (sorted_list_of_set (g 2))])
   \<and> joinWith '';'' (sorted_list_of_set ({} :: string set)) = []"
proof -
  define pre where "pre = parseDifferentSettingsToSystem existing"
  define idx where "idx = buildExistingIndexByKey pre"
  define m0 where "m0 = map newSet pre"
  define m1 where "m1 = fold (noteTouchedKey base updated idx) touched m0"
  define m2 where "m2 = (if length (m1 ! 1) > 0
                    then m1[1 := setAdd (m1 ! 1) ''compatible_printers''] else m1)"
  define g where "g = (\<lambda>i. set (pre ! i) \<union> set (filter (\<lambda>k. resolveDifferentSettingsGroupIndex k idx = i)
                          (touchedAndChanged base updated touched)))"
  have len_pre: "length pre = 3" by (simp add: pre_def)
  have len0: "length m0 = 3" by (simp add: m0_def len_pre)
  have bound: "\<And>k. resolveDifferentSettingsGroupIndex k idx < length m0"
    unfolding idx_def len0 by (rule resolveDifferentSettingsGroupIndex_bound [OF len_pre])
  from fold_noteTouchedKey [OF bound, of base updated touched]
  have len1: "length m1 = 3"
    and sets1: "\<And>i. i < 3 \<Longrightarrow> set (m1 ! i) = g i"
    and dist1: "\<And>i. i < 3 \<Longrightarrow> distinct (m1 ! i)"
    by (auto simp: m1_def len0 g_def m0_def len_pre)
  have len2: "length m2 = 3" by (simp add: m2_def len1)
  obtain a b c where m2_list: "m2 = [a, b, c]"
    using len2 by (auto simp: length_Suc_conv numeral_3_eq_3)
  have nths: "m2 ! 0 = a" "m2 ! 1 = b" "m2 ! 2 = c"
    by (simp_all add: m2_list)
  have m2_0: "set a = g 0" "distinct a"
    using sets1 [of 0] dist1 [of 0] nths(1) by (auto simp: m2_def split: if_splits)
  have m2_2: "set c = g 2" "distinct c"
    using sets1 [of 2] dist1 [of 2] nths(3) by (auto simp: m2_def split: if_splits)
  have m2_1: "set b = (if g 1 = {} then {} else insert ''compatible_printers'' (g 1))"
     "distinct b"
    using sets1 [of 1] dist1 [of 1] len1 nths(2) by (auto simp: m2_def split: if_splits)
  have out: "updateDifferentSettingsToSystem existing base updated touched
      = map formatDifferentSettingsGroup m2"
    by (simp add: updateDifferentSettingsToSystem_def Let_def pre_def idx_def m0_def m1_def m2_def)
  have main: "updateDifferentSettingsToSystem existing base updated touched
      = [joinWith '';'' (sorted_list_of_set (g 0)),
          joinWith '';'' (sorted_list_of_set
             (if g 1 = {} then {} else insert ''compatible_printers'' (g 1))),
          joinWith '';'' (sorted_list_of_set (g 2))]"
    unfolding out m2_list
    using m2_0 m2_1 m2_2 by (simp add: formatDifferentSettingsGroup_set)
  have e: "joinWith '';'' (sorted_list_of_set ({} :: string set)) = []"
    by simp
  show ?thesis
    using main e unfolding Let_def g_def idx_def pre_def by (intro conjI)
qed

theorem updateDifferentSettingsToSystem_groups_witness:
  "updateDifferentSettingsToSystem
     (JArr [JStr ''layer_height'', JStr ''eng_plate_temp;compatible_printers'', JStr ''''])
     [''wall_loops'' \<mapsto> JStr ''2'', ''layer_height'' \<mapsto> JStr ''0.2'']
     [''wall_loops'' \<mapsto> JStr ''3'', ''layer_height'' \<mapsto> JStr ''0.2'',
      ''nozzle_temperature'' \<mapsto> JArr [JStr ''250'']]
     [''layer_height'', ''wall_loops'', ''nozzle_temperature'']
   = [''layer_height;wall_loops'',
      ''compatible_printers;eng_plate_temp;nozzle_temperature'', '''']"
proof -
  let ?existing = "JArr [JStr ''layer_height'', JStr ''eng_plate_temp;compatible_printers'', JStr '''']"
  let ?base = "[''wall_loops'' \<mapsto> JStr ''2'', ''layer_height'' \<mapsto> JStr ''0.2'']"
  let ?updated = "[''wall_loops'' \<mapsto> JStr ''3'', ''layer_height'' \<mapsto> JStr ''0.2'',
      ''nozzle_temperature'' \<mapsto> JArr [JStr ''250'']]"
  let ?touched = "[''layer_height'', ''wall_loops'', ''nozzle_temperature'']"
  let ?pre = "parseDifferentSettingsToSystem ?existing"
  let ?idx = "buildExistingIndexByKey ?pre"
  let ?changed = "\<lambda>i. filter (\<lambda>k. resolveDifferentSettingsGroupIndex k ?idx = i)
                          (touchedAndChanged ?base ?updated ?touched)"
  have g0: "joinWith '';'' (sorted_list_of_set (set (?pre ! 0) \<union> set (?changed 0)))
      = ''layer_height;wall_loops''"
    by code_simp
  have g1: "joinWith '';'' (sorted_list_of_set
      (if set (?pre ! 1) \<union> set (?changed 1) = {} then {}
       else insert ''compatible_printers'' (set (?pre ! 1) \<union> set (?changed 1))))
      = ''compatible_printers;eng_plate_temp;nozzle_temperature''"
    by code_simp
  have g2: "joinWith '';'' (sorted_list_of_set (set (?pre ! 2) \<union> set (?changed 2))) = ''''"
    by code_simp
  show ?thesis
    using updateDifferentSettingsToSystem_groups [of ?existing ?base ?updated ?touched]
    unfolding Let_def g0 g1 g2 by (rule conjunct1)
qed

section \<open>Slender objects\<close>

lemma slender_height_over_min:
  "map_option is_slender (objectGeometry None (Some (x, y, z)))
     = Some (min x (min y z) \<noteq> 0 \<and> z / min x (min y z) > 4)"
  by (auto simp: objectGeometry_def buildGeometryFromBounding_def Let_def)

lemma ratio_over_footprint:
  assumes "0 \<le> x" "0 \<le> y" "0 \<le> (z::rat)"
  shows "(min x (min y z) \<noteq> 0 \<and> z / min x (min y z) > 4)
       = (min x y \<noteq> 0 \<and> z / min x y > 4)"
proof (cases "z < min x y")
  case True
  then have m: "min x (min y z) = z"
    by auto
  have "\<not> z / z > 4"
    by (cases "z = 0") auto
  moreover have "\<not> z / min x y > 4"
  proof -
    have "0 < min x y"
      using True assms by auto
    then have "z / min x y < 1"
      using True by (simp add: divide_less_eq)
    then show ?thesis
      by auto
  qed
  ultimately show ?thesis
    using m by simp
next
  case False
  then have "min x (min y z) = min x y"
    by auto
  then show ?thesis
    by simp
qed

text \<open>
  Claim C3, as the code has it. For an object without explicit geometry and with bounding
  box \<open>[x, y, z]\<close>, \<open>is_slender\<close> holds exactly when the smallest of the three extents is
  not zero and the height \<open>z\<close> divided by it exceeds 4; it is false when that extent is
  zero. For non-negative extents this is the ratio of the height to the smallest planar
  footprint extent \<open>min x y\<close>, false when the footprint is zero.
\<close>

theorem buildGeometryFromBounding_is_slender:
  "map_option is_slender (objectGeometry None (Some (x, y, z)))
     = Some (min x (min y z) \<noteq> 0 \<and> z / min x (min y z) > 4)
   \<and> (0 \<le> x \<and> 0 \<le> y \<and> 0 \<le> z \<longrightarrow>
        map_option is_slender (objectGeometry None (Some (x, y, z)))
          = Some (min x y \<noteq> 0 \<and> z / min x y > 4))
   \<and> (min x (min y z) = 0 \<longrightarrow>
        map_option is_slender (objectGeometry None (Some (x, y, z))) = Some False)"
  using ratio_over_footprint [of x y z]
  by (simp add: slender_height_over_min)

theorem buildGeometryFromBounding_is_slender_witness:
  "map_option is_slender (objectGeometry None (Some (10, 5, 50))) = Some True
   \<and> (0::rat) \<le> 10 \<and> (0::rat) \<le> 5 \<and> (0::rat) \<le> 50
   \<and> (50::rat) / min 10 5 > 4
   \<and> map_option is_slender (objectGeometry None (Some (3, 0, 7))) = Some False"
  using buildGeometryFromBounding_is_slender [of 10 5 50]
    buildGeometryFromBounding_is_slender [of 3 0 7]
  by simp

text \<open>
  The claim as the specification words it takes the largest extent over the smallest
  footprint extent. A flat bar of 100 by 1 by 1 has that ratio at 100, and the code does
  not flag it: its ratio is the height over the smallest extent, which is 1.
\<close>

theorem buildGeometryFromBounding_largest_axis_counterexample:
  "map_option is_slender (objectGeometry None (Some (100, 1, 1))) = Some False
   \<and> max (100::rat) (max 1 1) / min 100 1 > 4"
  by (simp add: objectGeometry_def buildGeometryFromBounding_def Let_def)

section \<open>First mapping wins\<close>

lemma populateMapping_cases:
  "populateMapping nc m (next, pop) =
     (if nullish (parse m (configGet nc (configKey m))) \<or> targetKey m \<in> set pop
      then (next, pop)
      else (next(targetKey m \<mapsto> parse m (configGet nc (configKey m))),
            setAdd pop (targetKey m)))"
proof -
  have "nullish v \<longleftrightarrow> v = JNull \<or> v = JUndef" for v
    by (cases v) auto
  then show ?thesis
    by (simp add: populateMapping_def Let_def)
qed

lemma firstParsed_Cons:
  "firstParsed nc t (m # ms)
     = (if targetKey m = t \<and> \<not> nullish (parse m (configGet nc (configKey m)))
        then Some m else firstParsed nc t ms)"
  by (simp add: firstParsed_def)

lemma fold_populateMapping:
  "fst (fold (populateMapping nc) ms (next, pop)) t =
     (if t \<in> set pop then next t
      else (case firstParsed nc t ms of
              Some m \<Rightarrow> Some (parse m (configGet nc (configKey m)))
            | None \<Rightarrow> next t))"
proof (induction ms arbitrary: "next" pop)
  case Nil
  then show ?case by (simp add: firstParsed_def)
next
  case (Cons m ms)
  let ?parsed = "parse m (configGet nc (configKey m))"
  show ?case
  proof (cases "nullish ?parsed \<or> targetKey m \<in> set pop")
    case True
    then have "fold (populateMapping nc) (m # ms) (next, pop)
        = fold (populateMapping nc) ms (next, pop)"
      by (simp add: populateMapping_cases)
    then show ?thesis
      using True Cons.IH [of "next" pop] by (auto simp: firstParsed_Cons)
  next
    case False
    define n' where "n' = next(targetKey m \<mapsto> ?parsed)"
    define p' where "p' = setAdd pop (targetKey m)"
    have step: "fold (populateMapping nc) (m # ms) (next, pop)
        = fold (populateMapping nc) ms (n', p')"
      using False by (simp add: populateMapping_cases n'_def p'_def)
    have IH: "fst (fold (populateMapping nc) ms (n', p')) t =
       (if t \<in> set p' then n' t
        else (case firstParsed nc t ms of
                Some m \<Rightarrow> Some (parse m (configGet nc (configKey m)))
              | None \<Rightarrow> n' t))"
      by (rule Cons.IH)
    have sp: "set p' = insert (targetKey m) (set pop)"
      by (simp add: p'_def)
    have nt: "n' t = (if t = targetKey m then Some ?parsed else next t)"
      by (simp add: n'_def)
    show ?thesis
      unfolding step IH sp firstParsed_Cons nt using False by (auto split: option.splits)
  qed
qed

lemma applyAdhesionFromConfig_other:
  "t \<noteq> ''adhesion_type'' \<Longrightarrow> applyAdhesionFromConfig toNumber nc settings t = settings t"
  by (simp add: applyAdhesionFromConfig_def Let_def)

lemma applySpeedsFromConfig_other:
  "t \<noteq> ''speeds'' \<Longrightarrow> applySpeedsFromConfig toNumber nc settings t = settings t"
  by (simp add: applySpeedsFromConfig_def Let_def)

lemma mergeRemainingConfig_defined:
  "getKey settings t \<noteq> JUndef \<Longrightarrow> mergeRemainingConfig config settings t = settings t"
  unfolding mergeRemainingConfig_def
proof (induction config arbitrary: settings)
  case Nil
  then show ?case by simp
next
  case (Cons e config)
  have keep: "mergeEntry e settings t = settings t"
    using Cons.prems by (auto simp: mergeEntry_def)
  then have "getKey (mergeEntry e settings) t \<noteq> JUndef"
    using Cons.prems by (simp add: getKey_def)
  from Cons.IH [OF this] keep show ?case
    by simp
qed

lemma mergeRemainingConfig_not_allowed:
  "t \<notin> set ALLOWED_EXTRA_CONFIG_KEYS \<Longrightarrow> mergeRemainingConfig config settings t = settings t"
  unfolding mergeRemainingConfig_def
proof (induction config arbitrary: settings)
  case Nil
  then show ?case by simp
next
  case (Cons e config)
  have "mergeEntry e settings t = settings t"
    using Cons.prems by (auto simp: mergeEntry_def)
  with Cons.IH [OF Cons.prems] show ?case
    by simp
qed



section \<open>Parameters and computed values\<close>

lemma resolveParameter_Inl:
  "resolveParameter inherited c parameter = Inl e
     \<longleftrightarrow> (\<forall>p. parameter \<noteq> JStr p) \<and> e = TypeError"
  by (cases parameter) (auto simp: resolveParameter_def parseSpeedKey_def Let_def)

lemma computeNewValue_cases:
  obtains (numeric)
      "strictEq (change_changeType change) (JStr ''relative'')"
      "isNumber currentValue" "isNumber (change_newValue change)"
      "computeNewValue rt currentValue change ws
         = (Proposed (runtime_add rt currentValue
                        (runtime_multiply rt currentValue (change_newValue change))), ws)"
  | (not_numeric)
      "strictEq (change_changeType change) (JStr ''relative'')"
      "\<not> (isNumber currentValue \<and> isNumber (change_newValue change))"
      "computeNewValue rt currentValue change ws
         = (SameAsCurrent, ws @ [RelativeChangeTypeWarning (change_parameter change)])"
  | (absolute)
      "\<not> strictEq (change_changeType change) (JStr ''relative'')"
      "computeNewValue rt currentValue change ws = (Proposed (change_newValue change), ws)"
proof (cases "strictEq (change_changeType change) (JStr ''relative'')")
  case False
  then show ?thesis
    using absolute by (simp add: computeNewValue_def)
next
  case True
  show ?thesis
  proof (cases "isNumber currentValue \<and> isNumber (change_newValue change)")
    case numbers: True
    then show ?thesis
      using numeric True by (simp add: computeNewValue_def)
  next
    case False
    then show ?thesis
      using not_numeric True by (auto simp: computeNewValue_def)
  qed
qed

section \<open>Single steps of the engine\<close>

lemma applyGlobalChange_known:
  assumes "resolveParameter (runtime_inherited rt) (model_globalProcess updated) (change_parameter change)
             = Inr (currentValue, setter)"
    and "currentValue \<noteq> JUndef"
    and "computeNewValue rt currentValue change ws = (proposed, ws')"
  shows "applyGlobalChange rt updated change ws =
           (if sameAsCurrent proposed currentValue then Inr (updated, ws', None)
            else Inr (updated\<lparr>model_globalProcess :=
                                 setter (proposedValue proposed currentValue)\<rparr>,
                      ws',
                      Some (formatDiff change currentValue
                              (proposedValue proposed currentValue) ''global'' None)))"
  using assms by (simp add: applyGlobalChange_def)

lemma applyObjectChange_not_found:
  assumes "resolveObjectTarget change = (targetName, plateIndex)"
    and "findPlate (model_plates updated) targetName plateIndex = None"
  shows "applyObjectChange rt updated change ws
           = Inr (updated, ws @ [ObjectNotFoundWarning targetName (change_parameter change)], None)"
  using assms by (simp add: applyObjectChange_def)

text \<open>The value an object-scoped change starts from: the override's own value, or the
  global one when the override has none.\<close>

lemma applyObjectChange_found:
  assumes "resolveObjectTarget change = (targetName, plateIndex)"
    and "findPlate (model_plates updated) targetName plateIndex = Some i"
    and "ensureObjectOverride (runtime_String rt) (model_perObjectOverrides updated) targetName
           (plate_index (model_plates updated ! i)) = (store, key)"
    and "resolveParameter (runtime_inherited rt) (recordAt store key) (change_parameter change)
           = Inr (currentValue, setter)"
    and "resolveParameter (runtime_inherited rt) (model_globalProcess updated)
           (change_parameter change)
           = Inr (globalValue, globalSetter)"
    and "baseValue = (if currentValue = JUndef then globalValue else currentValue)"
    and "computeNewValue rt baseValue change ws = (proposed, ws')"
  shows "applyObjectChange rt updated change ws =
           (if baseValue = JUndef
            then Inr (updated\<lparr>model_perObjectOverrides := store\<rparr>,
                      ws @ [UnknownObjectParameterWarning (change_parameter change) targetName],
                      None)
            else if sameAsCurrent proposed baseValue
            then Inr (updated\<lparr>model_perObjectOverrides := store\<rparr>, ws', None)
            else (case syncPlateOverride (model_plates updated ! i) targetName
                         (String (runtime_String rt) (change_parameter change))
                         (proposedValue proposed baseValue) of
                    Inl e \<Rightarrow> Inl e
                  | Inr synced \<Rightarrow>
                      Inr (updated\<lparr>
                             model_perObjectOverrides :=
                               store(key \<mapsto> setter (proposedValue proposed baseValue)),
                             model_plates := (model_plates updated)[i := synced]\<rparr>,
                           ws',
                           Some (formatDiff change baseValue
                                   (proposedValue proposed baseValue) ''object''
                                   (Some (targetName,
                                          plate_index (model_plates updated ! i)))))))"
proof (cases "currentValue = JUndef")
  case True
  with assms have "computeNewValue rt globalValue change ws = (proposed, ws')"
    and "baseValue = globalValue"
    by simp_all
  with assms(1-5) True show ?thesis
    by (simp add: applyObjectChange_def Let_def split: sum.splits)
next
  case False
  with assms have "computeNewValue rt currentValue change ws = (proposed, ws')"
    and "baseValue = currentValue"
    by simp_all
  with assms(1-5) False show ?thesis
    by (simp add: applyObjectChange_def Let_def split: sum.splits)
qed

text \<open>A parameter outside \<^verbatim>\<open>speeds.\<close> is read and written as a property of the
  container itself.\<close>

lemma resolveParameter_plain:
  assumes "take (length ''speeds.'') p \<noteq> ''speeds.''"
  shows "resolveParameter inherited c (JStr p)
           = Inr (readProperty inherited c p, \<lambda>v. writeProperty c p v)"
  using assms by (simp add: resolveParameter_def parseSpeedKey_def)

lemma readProperty_own:
  assumes "properties c k = Some x"
  shows "readProperty inherited c k = x"
  using assms by (simp add: readProperty_def)

lemma writeProperty_own:
  assumes "k \<noteq> ''__proto__'' \<or> properties c k \<noteq> None"
  shows "writeProperty c k v = c\<lparr>properties := (properties c)(k \<mapsto> v)\<rparr>"
  using assms by (auto simp: writeProperty_def)
section \<open>Relative changes\<close>

lemma sample_runtime:
  "runtime_String sampleRuntime = showValue"
  "runtime_add sampleRuntime = exactAdd"
  "runtime_multiply sampleRuntime = exactMultiply"
  "runtime_inherited sampleRuntime = objectInherited"
  by (simp_all add: sampleRuntime_def)

lemma sample_globalProcess:
  "readProperty inherited (model_globalProcess sampleModel) ''wall_line_count'' = JNum 4"
  "readProperty inherited (model_globalProcess sampleModel) ''infill_pattern'' = JStr ''grid''"
  "readProperty inherited (model_globalProcess sampleModel) ''fan_speed_percent'' = JNum 30"
  by (simp_all add: readProperty_def sampleModel_def)

lemma sample_write:
  assumes "k \<noteq> ''__proto__''"
  shows "writeProperty (model_globalProcess sampleModel) k v
           = (model_globalProcess sampleModel)
               \<lparr>properties := (properties (model_globalProcess sampleModel))(k \<mapsto> v)\<rparr>"
  using assms by (simp add: writeProperty_def)


section \<open>Locked settings\<close>

lemma fold_addUserModified:
  "set (fst (fold (addUserModified conv) entries lookup))
     = set (fst lookup) \<union> String conv ` {e \<in> set entries. truthy e}
   \<and> set (snd (fold (addUserModified conv) entries lookup))
     = set (snd lookup)
       \<union> (\<lambda>e. normalizeSettingKey conv (JStr (String conv e))) ` {e \<in> set entries. truthy e}"
proof (induction entries arbitrary: lookup)
  case Nil
  then show ?case by simp
next
  case (Cons e entries)
  define lookup' where "lookup' = addUserModified conv e lookup"
  have step: "fold (addUserModified conv) (e # entries) lookup
      = fold (addUserModified conv) entries lookup'"
    by (simp add: lookup'_def)
  have sets: "set (fst lookup') = set (fst lookup) \<union> (if truthy e then {String conv e} else {})"
    "set (snd lookup') = set (snd lookup)
       \<union> (if truthy e then {normalizeSettingKey conv (JStr (String conv e))} else {})"
    by (simp_all add: lookup'_def addUserModified_def Let_def)
  have split: "{x \<in> set (e # entries). truthy x}
      = (if truthy e then {e} else {}) \<union> {x \<in> set entries. truthy x}"
    by auto
  have "set (fst (fold (addUserModified conv) entries lookup'))
      = set (fst lookup') \<union> String conv ` {e \<in> set entries. truthy e}"
    and "set (snd (fold (addUserModified conv) entries lookup'))
      = set (snd lookup')
        \<union> (\<lambda>e. normalizeSettingKey conv (JStr (String conv e))) ` {e \<in> set entries. truthy e}"
    using Cons.IH [of lookup'] by blast+
  then show ?case
    unfolding step split sets by (cases "truthy e") auto
qed

lemma buildUserModifiedLookup_sets:
  "set (fst (buildUserModifiedLookup conv entries)) = String conv ` {e \<in> set entries. truthy e}"
  "set (snd (buildUserModifiedLookup conv entries))
     = (\<lambda>e. normalizeSettingKey conv (JStr (String conv e))) ` {e \<in> set entries. truthy e}"
  using fold_addUserModified [of conv entries "([], [])"]
  by (simp_all add: buildUserModifiedLookup_def)

lemma isUserSettingLocked_iff:
  "isUserSettingLocked conv (JStr p) (buildUserModifiedLookup conv entries)
     \<longleftrightarrow> (\<exists>e \<in> set entries. truthy e \<and>
            (String conv e = p
             \<or> normalizeSettingKey conv (JStr (String conv e)) = normalizeSettingKey conv (JStr p)))"
proof -
  let ?L = "buildUserModifiedLookup conv entries"
  let ?T = "{e \<in> set entries. truthy e}"
  have raw: "set (fst ?L) = String conv ` ?T"
    and norm: "set (snd ?L) = (\<lambda>e. normalizeSettingKey conv (JStr (String conv e))) ` ?T"
    by (rule buildUserModifiedLookup_sets)+
  have empty: "length (fst ?L) = 0 \<longleftrightarrow> ?T = {}"
  proof -
    have "length (fst ?L) = 0 \<longleftrightarrow> set (fst ?L) = {}"
      by simp
    then show ?thesis
      unfolding raw by simp
  qed
  have "isUserSettingLocked conv (JStr p) ?L
      \<longleftrightarrow> ?T \<noteq> {} \<and> (p \<in> String conv ` ?T
            \<or> normalizeSettingKey conv (JStr p)
                \<in> (\<lambda>e. normalizeSettingKey conv (JStr (String conv e))) ` ?T)"
    unfolding isUserSettingLocked_def empty raw norm by simp
  also have "\<dots> \<longleftrightarrow> (\<exists>e \<in> ?T. String conv e = p
             \<or> normalizeSettingKey conv (JStr (String conv e)) = normalizeSettingKey conv (JStr p))"
    (is "?A \<longleftrightarrow> ?B")
  proof
    assume ?A
    then consider (exact) "p \<in> String conv ` ?T"
      | (normalized) "normalizeSettingKey conv (JStr p)
                \<in> (\<lambda>e. normalizeSettingKey conv (JStr (String conv e))) ` ?T"
      by blast
    then show ?B
    proof cases
      case exact
      then obtain e where "e \<in> ?T" and "p = String conv e"
        by (rule imageE)
      then show ?thesis
        by (intro bexI [of _ e]) simp_all
    next
      case normalized
      then obtain e where "e \<in> ?T"
        and "normalizeSettingKey conv (JStr p) = normalizeSettingKey conv (JStr (String conv e))"
        by (rule imageE)
      then show ?thesis
        by (intro bexI [of _ e]) simp_all
    qed
  next
    assume ?B
    then obtain e where e: "e \<in> ?T"
      and m: "String conv e = p
             \<or> normalizeSettingKey conv (JStr (String conv e)) = normalizeSettingKey conv (JStr p)"
      by (rule bexE)
    have "?T \<noteq> {}"
      using e by blast
    moreover from m have "p \<in> String conv ` ?T
            \<or> normalizeSettingKey conv (JStr p)
                \<in> (\<lambda>e. normalizeSettingKey conv (JStr (String conv e))) ` ?T"
    proof
      assume "String conv e = p"
      then have "p \<in> String conv ` ?T"
        using e by (intro image_eqI [of _ _ e]) simp_all
      then show ?thesis ..
    next
      assume "normalizeSettingKey conv (JStr (String conv e)) = normalizeSettingKey conv (JStr p)"
      then have "normalizeSettingKey conv (JStr p)
                \<in> (\<lambda>e. normalizeSettingKey conv (JStr (String conv e))) ` ?T"
        using e by (intro image_eqI [of _ _ e]) simp_all
      then show ?thesis ..
    qed
    ultimately show ?A ..
  qed
  also have "\<dots> \<longleftrightarrow> (\<exists>e \<in> set entries. truthy e \<and>
            (String conv e = p
             \<or> normalizeSettingKey conv (JStr (String conv e)) = normalizeSettingKey conv (JStr p)))"
    by blast
  finally show ?thesis .
qed

lemma applyChange_locked:
  assumes "respect"
    and "isUserSettingLocked (runtime_String rt) (change_parameter change) lookup"
  shows "applyChange rt respect lookup st change
           = Inr (st\<lparr>result_warnings :=
                       result_warnings st @ [UserSettingLockedWarning (change_parameter change)]\<rparr>)"
  using assms by (simp add: applyChange_def)

lemma applyChange_unlocked:
  assumes "\<not> (respect \<and> isUserSettingLocked (runtime_String rt) (change_parameter change) lookup)"
  shows "applyChange rt respect lookup st change =
           (case applySingleChange rt (result_updated st) change (result_warnings st) of
              Inl e \<Rightarrow> Inl e
            | Inr (updated, ws, result) \<Rightarrow>
                Inr \<lparr>result_updated = updated, result_warnings = ws,
                     result_diffs = (case result of None \<Rightarrow> result_diffs st
                                     | Some d \<Rightarrow> result_diffs st @ [d])\<rparr>)"
  using assms by (auto simp: applyChange_def)

lemma isUserSettingLocked_empty: "\<not> isUserSettingLocked conv parameter ([], [])"
  by (simp add: isUserSettingLocked_def)

text \<open>An absolute change of a global setting that the settings hold as an own property,
  to a value that is not identical to the current one: the value is stored and the diff
  recorded.\<close>

lemma applyGlobalChange_absolute_own:
  assumes "change_parameter change = JStr p"
    and "take (length ''speeds.'') p \<noteq> ''speeds.''"
    and "properties (model_globalProcess updated) p = Some current"
    and "current \<noteq> JUndef"
    and "\<not> strictEq (change_changeType change) (JStr ''relative'')"
    and "\<not> strictEq (change_newValue change) current"
  shows "applyGlobalChange rt updated change ws
           = Inr (updated\<lparr>model_globalProcess :=
                    (model_globalProcess updated)
                      \<lparr>properties := (properties (model_globalProcess updated))
                                        (p \<mapsto> change_newValue change)\<rparr>\<rparr>,
                  ws,
                  Some \<lparr>diff_scope = ''global'', diff_target = None,
                        diff_parameter = JStr p, diff_from = current,
                        diff_to = change_newValue change,
                        diff_reason = orElse (change_reason change) (JStr '''')\<rparr>)"
proof -
  let ?gp = "model_globalProcess updated"
  have res: "resolveParameter (runtime_inherited rt) ?gp (change_parameter change)
      = Inr (current, \<lambda>v. writeProperty ?gp p v)"
    unfolding assms(1) resolveParameter_plain [OF assms(2)]
    by (simp add: readProperty_own [OF assms(3)])
  have cmp: "computeNewValue rt current change ws = (Proposed (change_newValue change), ws)"
    using assms(5) by (simp add: computeNewValue_def)
  have stored: "writeProperty ?gp p (change_newValue change)
      = ?gp\<lparr>properties := (properties ?gp)(p \<mapsto> change_newValue change)\<rparr>"
    using assms(3) by (intro writeProperty_own) simp
  show ?thesis
    unfolding applyGlobalChange_known [OF res assms(4) cmp]
    using assms(6) by (simp add: sameAsCurrent_def proposedValue_def stored formatDiff_def assms(1))
qed

text \<open>
  Claim C7. Let the parameter of a change be the string \<open>p\<close>, and let some entry of the
  user-modified settings that is not empty match it, exactly or after both are normalized.
  With \<open>respectUserSettings\<close> enabled the step of \<^verbatim>\<open>applyLlmChanges\<close> for that change only
  appends the locked-setting warning: the model and the diffs stay as they are, and a
  response holding only that change gives back the model it was given. With
  \<open>respectUserSettings\<close> disabled the step is the one taken when no setting is locked at
  all, and the change is applied: when it is global and absolute, on a setting outside
  \<^verbatim>\<open>speeds.\<close> that the global settings hold, and its new value is not identical to the
  current one, the new value is stored under \<open>p\<close>, the diff from the current to the new
  value is recorded and no warning is appended; a response holding only that change gives
  back the model with that one setting changed and that one diff.
\<close>

theorem locked_setting_is_skipped:
  assumes "change_parameter change = JStr p"
    and "e \<in> set entries" and "truthy e"
    and "String (runtime_String rt) e = p
         \<or> normalizeSettingKey (runtime_String rt) (JStr (String (runtime_String rt) e))
            = normalizeSettingKey (runtime_String rt) (JStr p)"
  shows
    "applyChange rt True (buildUserModifiedLookup (runtime_String rt) entries) st change
       = Inr (st\<lparr>result_warnings := result_warnings st @ [UserSettingLockedWarning (JStr p)]\<rparr>)
   \<and> applyChange rt False (buildUserModifiedLookup (runtime_String rt) entries) st change
       = applyChange rt True ([], []) st change
   \<and> (\<forall>current.
         strictEq (orElse (change_scope change) (JStr ''global'')) (JStr ''global'')
         \<and> take (length ''speeds.'') p \<noteq> ''speeds.''
         \<and> properties (model_globalProcess (result_updated st)) p = Some current
         \<and> current \<noteq> JUndef
         \<and> \<not> strictEq (change_changeType change) (JStr ''relative'')
         \<and> \<not> strictEq (change_newValue change) current \<longrightarrow>
         applyChange rt False (buildUserModifiedLookup (runtime_String rt) entries) st change
           = Inr \<lparr>result_updated =
                    (result_updated st)\<lparr>model_globalProcess :=
                       (model_globalProcess (result_updated st))
                         \<lparr>properties := (properties (model_globalProcess (result_updated st)))
                                           (p \<mapsto> change_newValue change)\<rparr>\<rparr>,
                  result_warnings = result_warnings st,
                  result_diffs =
                    result_diffs st
                    @ [\<lparr>diff_scope = ''global'', diff_target = None,
                        diff_parameter = JStr p, diff_from = current,
                        diff_to = change_newValue change,
                        diff_reason = orElse (change_reason change) (JStr '''')\<rparr>]\<rparr>)
   \<and> (\<forall>upstream. model_userModifiedSettings normalized = Some entries
         \<and> spreadWarnings (response_warnings response) = Inr upstream
         \<and> response_changes response = [change] \<longrightarrow>
         applyLlmChanges rt normalized response True
           = Inr \<lparr>result_updated = normalized,
                  result_warnings = map UpstreamWarning upstream @ [UserSettingLockedWarning (JStr p)],
                  result_diffs = []\<rparr>)
   \<and> (\<forall>upstream current. model_userModifiedSettings normalized = Some entries
         \<and> spreadWarnings (response_warnings response) = Inr upstream
         \<and> response_changes response = [change]
         \<and> strictEq (orElse (change_scope change) (JStr ''global'')) (JStr ''global'')
         \<and> take (length ''speeds.'') p \<noteq> ''speeds.''
         \<and> properties (model_globalProcess normalized) p = Some current
         \<and> current \<noteq> JUndef
         \<and> \<not> strictEq (change_changeType change) (JStr ''relative'')
         \<and> \<not> strictEq (change_newValue change) current \<longrightarrow>
         applyLlmChanges rt normalized response False
           = Inr \<lparr>result_updated =
                    normalized\<lparr>model_globalProcess :=
                       (model_globalProcess normalized)
                         \<lparr>properties := (properties (model_globalProcess normalized))
                                           (p \<mapsto> change_newValue change)\<rparr>\<rparr>,
                  result_warnings = map UpstreamWarning upstream,
                  result_diffs =
                    [\<lparr>diff_scope = ''global'', diff_target = None,
                      diff_parameter = JStr p, diff_from = current,
                      diff_to = change_newValue change,
                      diff_reason = orElse (change_reason change) (JStr '''')\<rparr>]\<rparr>)"
proof -
  let ?L = "buildUserModifiedLookup (runtime_String rt) entries"
  have locked: "isUserSettingLocked (runtime_String rt) (change_parameter change) ?L"
    unfolding assms(1) isUserSettingLocked_iff using assms(2-4) by blast
  have on: "applyChange rt True ?L st change
       = Inr (st\<lparr>result_warnings := result_warnings st @ [UserSettingLockedWarning (JStr p)]\<rparr>)"
    for st
    using applyChange_locked [OF _ locked, of True st] by (simp add: assms(1))
  have off: "applyChange rt False ?L st change = applyChange rt True ([], []) st change"
    by (simp add: applyChange_unlocked isUserSettingLocked_empty)
  have applied: "applyChange rt False ?L st change
           = Inr \<lparr>result_updated =
                    (result_updated st)\<lparr>model_globalProcess :=
                       (model_globalProcess (result_updated st))
                         \<lparr>properties := (properties (model_globalProcess (result_updated st)))
                                           (p \<mapsto> change_newValue change)\<rparr>\<rparr>,
                  result_warnings = result_warnings st,
                  result_diffs =
                    result_diffs st
                    @ [\<lparr>diff_scope = ''global'', diff_target = None,
                        diff_parameter = JStr p, diff_from = current,
                        diff_to = change_newValue change,
                        diff_reason = orElse (change_reason change) (JStr '''')\<rparr>]\<rparr>"
    if "strictEq (orElse (change_scope change) (JStr ''global'')) (JStr ''global'')
         \<and> take (length ''speeds.'') p \<noteq> ''speeds.''
         \<and> properties (model_globalProcess (result_updated st)) p = Some current
         \<and> current \<noteq> JUndef
         \<and> \<not> strictEq (change_changeType change) (JStr ''relative'')
         \<and> \<not> strictEq (change_newValue change) current"
    for current st
  proof -
    from that have global: "strictEq (orElse (change_scope change) (JStr ''global'')) (JStr ''global'')"
      and h: "take (length ''speeds.'') p \<noteq> ''speeds.''"
        "properties (model_globalProcess (result_updated st)) p = Some current"
        "current \<noteq> JUndef"
        "\<not> strictEq (change_changeType change) (JStr ''relative'')"
        "\<not> strictEq (change_newValue change) current"
      by blast+
    have single: "applySingleChange rt (result_updated st) change (result_warnings st)
        = applyGlobalChange rt (result_updated st) change (result_warnings st)"
      using global by (simp add: applySingleChange_def Let_def)
    have unlocked: "\<not> (False \<and> isUserSettingLocked (runtime_String rt) (change_parameter change) ?L)"
      by simp
    show ?thesis
      unfolding applyChange_unlocked [OF unlocked] single
        applyGlobalChange_absolute_own [OF assms(1) h]
      by simp
  qed
  have whole: "applyLlmChanges rt normalized response True
           = Inr \<lparr>result_updated = normalized,
                  result_warnings = map UpstreamWarning upstream @ [UserSettingLockedWarning (JStr p)],
                  result_diffs = []\<rparr>"
    if "model_userModifiedSettings normalized = Some entries
         \<and> spreadWarnings (response_warnings response) = Inr upstream
         \<and> response_changes response = [change]" for upstream
    using that by (simp add: applyLlmChanges_def on)
  have whole_off: "applyLlmChanges rt normalized response False
           = Inr \<lparr>result_updated =
                    normalized\<lparr>model_globalProcess :=
                       (model_globalProcess normalized)
                         \<lparr>properties := (properties (model_globalProcess normalized))
                                           (p \<mapsto> change_newValue change)\<rparr>\<rparr>,
                  result_warnings = map UpstreamWarning upstream,
                  result_diffs =
                    [\<lparr>diff_scope = ''global'', diff_target = None,
                      diff_parameter = JStr p, diff_from = current,
                      diff_to = change_newValue change,
                      diff_reason = orElse (change_reason change) (JStr '''')\<rparr>]\<rparr>"
    if "model_userModifiedSettings normalized = Some entries
         \<and> spreadWarnings (response_warnings response) = Inr upstream
         \<and> response_changes response = [change]
         \<and> strictEq (orElse (change_scope change) (JStr ''global'')) (JStr ''global'')
         \<and> take (length ''speeds.'') p \<noteq> ''speeds.''
         \<and> properties (model_globalProcess normalized) p = Some current
         \<and> current \<noteq> JUndef
         \<and> \<not> strictEq (change_changeType change) (JStr ''relative'')
         \<and> \<not> strictEq (change_newValue change) current"
    for upstream current
  proof -
    let ?st = "\<lparr>result_updated = normalized, result_warnings = map UpstreamWarning upstream,
                result_diffs = []\<rparr>"
    from that have run: "model_userModifiedSettings normalized = Some entries"
        "spreadWarnings (response_warnings response) = Inr upstream"
        "response_changes response = [change]"
      and h: "strictEq (orElse (change_scope change) (JStr ''global'')) (JStr ''global'')
         \<and> take (length ''speeds.'') p \<noteq> ''speeds.''
         \<and> properties (model_globalProcess (result_updated ?st)) p = Some current
         \<and> current \<noteq> JUndef
         \<and> \<not> strictEq (change_changeType change) (JStr ''relative'')
         \<and> \<not> strictEq (change_newValue change) current"
      by simp_all
    show ?thesis
      using run by (simp add: applyLlmChanges_def applied [OF h])
  qed
  show ?thesis
    using on off applied whole whole_off by blast
qed

lemma normalize_fan: "normalizeSettingKey showValue (JStr ''fan-speed-percent'') = ''fanspeedpercent''"
  "normalizeSettingKey showValue (JStr ''fan_speed_percent'') = ''fanspeedpercent''"
  by code_simp+

theorem locked_setting_is_skipped_witness:
  "applyLlmChanges sampleRuntime sampleModel
     (sampleResponse [sampleChange (JStr ''global'') JNull (JStr ''fan_speed_percent'') (JNum 50)
                        (JStr ''absolute'')]) True
     = Inr \<lparr>result_updated = sampleModel,
            result_warnings = [UserSettingLockedWarning (JStr ''fan_speed_percent'')],
            result_diffs = []\<rparr>
   \<and> applyLlmChanges sampleRuntime sampleModel
       (sampleResponse [sampleChange (JStr ''global'') JNull (JStr ''fan_speed_percent'') (JNum 50)
                          (JStr ''absolute'')]) False
     = Inr \<lparr>result_updated =
              sampleModel\<lparr>model_globalProcess :=
                 (model_globalProcess sampleModel)
                   \<lparr>properties := (properties (model_globalProcess sampleModel))
                                     (''fan_speed_percent'' \<mapsto> JNum 50)\<rparr>\<rparr>,
            result_warnings = [],
            result_diffs =
              [\<lparr>diff_scope = ''global'', diff_target = None,
                diff_parameter = JStr ''fan_speed_percent'', diff_from = JNum 30,
                diff_to = JNum 50, diff_reason = JStr ''''\<rparr>]\<rparr>"
proof -
  let ?c = "sampleChange (JStr ''global'') JNull (JStr ''fan_speed_percent'') (JNum 50)
                        (JStr ''absolute'')"
  have p: "change_parameter ?c = JStr ''fan_speed_percent''"
    by (simp add: sampleChange_def)
  have e: "JStr ''fan-speed-percent'' \<in> set [JStr ''fan-speed-percent'']"
    "truthy (JStr ''fan-speed-percent'')"
    by simp_all
  have m: "String (runtime_String sampleRuntime) (JStr ''fan-speed-percent'') = ''fan_speed_percent''
     \<or> normalizeSettingKey (runtime_String sampleRuntime)
          (JStr (String (runtime_String sampleRuntime) (JStr ''fan-speed-percent'')))
        = normalizeSettingKey (runtime_String sampleRuntime) (JStr ''fan_speed_percent'')"
    by (simp add: String_def normalize_fan sample_runtime)
  have ums: "model_userModifiedSettings sampleModel = Some [JStr ''fan-speed-percent'']"
    by (simp add: sampleModel_def)
  have sw: "spreadWarnings (response_warnings (sampleResponse [?c])) = Inr []"
    by (simp add: sampleResponse_def spreadWarnings_def orElse_def)
  have cs: "response_changes (sampleResponse [?c]) = [?c]"
    by (simp add: sampleResponse_def)
  have global: "strictEq (orElse (change_scope ?c) (JStr ''global'')) (JStr ''global'')"
    by (simp add: sampleChange_def orElse_def strictEq_def)
  have plain: "take (length ''speeds.'') ''fan_speed_percent'' \<noteq> ''speeds.''"
    by simp
  have own: "properties (model_globalProcess sampleModel) ''fan_speed_percent'' = Some (JNum 30)"
    by (simp add: sampleModel_def)
  have absolute: "\<not> strictEq (change_changeType ?c) (JStr ''relative'')"
    "\<not> strictEq (change_newValue ?c) (JNum 30)"
    "change_newValue ?c = JNum 50" "change_reason ?c = JStr ''''"
    by (simp_all add: sampleChange_def strictEq_def)
  note main = locked_setting_is_skipped [OF p e m, where normalized = sampleModel
        and response = "sampleResponse [?c]"
        and st = "\<lparr>result_updated = sampleModel, result_warnings = [], result_diffs = []\<rparr>"]
  have enabled: "applyLlmChanges sampleRuntime sampleModel (sampleResponse [?c]) True
     = Inr \<lparr>result_updated = sampleModel,
            result_warnings = [UserSettingLockedWarning (JStr ''fan_speed_percent'')],
            result_diffs = []\<rparr>"
    using main [THEN conjunct2, THEN conjunct2, THEN conjunct2, THEN conjunct1, rule_format,
        of "[]"] ums sw cs
    by simp
  have disabled: "applyLlmChanges sampleRuntime sampleModel (sampleResponse [?c]) False
     = Inr \<lparr>result_updated =
              sampleModel\<lparr>model_globalProcess :=
                 (model_globalProcess sampleModel)
                   \<lparr>properties := (properties (model_globalProcess sampleModel))
                                     (''fan_speed_percent'' \<mapsto> JNum 50)\<rparr>\<rparr>,
            result_warnings = [],
            result_diffs =
              [\<lparr>diff_scope = ''global'', diff_target = None,
                diff_parameter = JStr ''fan_speed_percent'', diff_from = JNum 30,
                diff_to = JNum 50, diff_reason = JStr ''''\<rparr>]\<rparr>"
    using main [THEN conjunct2, THEN conjunct2, THEN conjunct2, THEN conjunct2, rule_format,
        of "[]" "JNum 30"] ums sw cs global plain own absolute
    by (simp add: orElse_def)
  show ?thesis
    using enabled disabled by (rule conjI)
qed
section \<open>Object targets\<close>

lemma findIndex_None: "findIndex P xs = None \<longleftrightarrow> (\<forall>x \<in> set xs. \<not> P x)"
  by (induction xs) auto

lemma findIndex_Some: "findIndex P xs = Some i \<Longrightarrow> i < length xs \<and> P (xs ! i)"
proof (induction xs arbitrary: i)
  case Nil
  then show ?case by simp
next
  case (Cons x xs)
  show ?case
  proof (cases "P x")
    case True
    with Cons.prems show ?thesis by simp
  next
    case False
    with Cons.prems obtain j where "findIndex P xs = Some j" and "i = Suc j"
      by auto
    with Cons.IH [of j] show ?thesis by simp
  qed
qed

lemma findPlate_None_if_no_object:
  assumes "\<forall>pl \<in> set plates. \<forall>obj \<in> set (plate_objects pl). \<not> strictEq (object_name obj) objectName"
  shows "findPlate plates objectName plateIndex = None"
  unfolding findPlate_def findIndex_None
  using assms by (auto simp: plateMatches_def list_ex_iff)

lemma findPlate_Some_has_object:
  assumes "findPlate plates objectName plateIndex = Some i"
  shows "i < length plates
    \<and> (\<exists>obj \<in> set (plate_objects (plates ! i)). strictEq (object_name obj) objectName)"
  using findIndex_Some [OF assms [unfolded findPlate_def]]
  by (auto simp: plateMatches_def list_ex_iff split: if_splits)

lemma resolveObjectTarget_fallback:
  assumes "nullish (change_target change)
     \<or> (nullish (getProp (change_target change) ''objectName'')
        \<and> nullish (getProp (change_target change) ''name''))"
  shows "fst (resolveObjectTarget change) = change_parameter change"
  using assms by (auto simp: resolveObjectTarget_def getPropOpt_def orElse_def)

lemma applyObjectChange_diff_found:
  assumes "applyObjectChange rt updated change ws = Inr (updated', ws', Some d)"
  shows "\<exists>i. findPlate (model_plates updated) (fst (resolveObjectTarget change))
              (snd (resolveObjectTarget change)) = Some i
          \<and> diff_target d = Some (fst (resolveObjectTarget change),
                                   plate_index (model_plates updated ! i))"
proof (cases "findPlate (model_plates updated) (fst (resolveObjectTarget change))
              (snd (resolveObjectTarget change))")
  case None
  then show ?thesis
    using assms applyObjectChange_not_found [of change "fst (resolveObjectTarget change)"
        "snd (resolveObjectTarget change)" updated rt ws]
    by simp
next
  case (Some i)
  obtain store key where e: "ensureObjectOverride (runtime_String rt) (model_perObjectOverrides updated)
      (fst (resolveObjectTarget change)) (plate_index (model_plates updated ! i)) = (store, key)"
    by (cases "ensureObjectOverride (runtime_String rt) (model_perObjectOverrides updated)
      (fst (resolveObjectTarget change)) (plate_index (model_plates updated ! i))")
  show ?thesis
  proof (cases "resolveParameter (runtime_inherited rt) (recordAt store key) (change_parameter change)")
    case (Inl err)
    then show ?thesis
      using assms Some e by (simp add: applyObjectChange_def Let_def split_beta)
  next
    case (Inr r)
    obtain currentValue setter where r: "r = (currentValue, setter)"
      by (cases r)
    show ?thesis
    proof (cases "resolveParameter (runtime_inherited rt) (model_globalProcess updated) (change_parameter change)")
      case (Inl err)
      then have "\<forall>p. change_parameter change \<noteq> JStr p"
        by (simp add: resolveParameter_Inl)
      then have "resolveParameter (runtime_inherited rt) (recordAt store key)
          (change_parameter change) = Inl TypeError"
        by (simp add: resolveParameter_Inl)
      then show ?thesis
        using Inr by simp
    next
      case g: (Inr gr)
      obtain globalValue globalSetter where gr: "gr = (globalValue, globalSetter)"
        by (cases gr)
      obtain proposed ws1 where c: "computeNewValue rt
          (if currentValue = JUndef then globalValue else currentValue) change ws = (proposed, ws1)"
        by (cases "computeNewValue rt
          (if currentValue = JUndef then globalValue else currentValue) change ws")
      have t: "resolveObjectTarget change
          = (fst (resolveObjectTarget change), snd (resolveObjectTarget change))"
        by simp
      from applyObjectChange_found [OF t Some e Inr [unfolded r] g [unfolded gr] refl c, of ]
        assms
      have "d = formatDiff change (if currentValue = JUndef then globalValue else currentValue)
                              (proposedValue proposed
                                 (if currentValue = JUndef then globalValue else currentValue))
                              ''object''
                              (Some (fst (resolveObjectTarget change),
                                     plate_index (model_plates updated ! i)))"
        by (auto split: if_splits sum.splits)
      then show ?thesis
        using Some by (simp add: formatDiff_def)
    qed
  qed
qed

text \<open>
  Claim C10. When the target of an object-scoped change is nullish, or has neither
  \<open>objectName\<close> nor \<open>name\<close>, the object name that the engine looks for is the parameter
  of the change. If no plate holds an object of that name, the change only appends the
  object-not-found warning, which names the parameter as the object. If the change is
  applied, so that a diff is recorded, some plate holds an object named like the parameter,
  and the diff targets that name on that plate.
\<close>

theorem object_target_defaults_to_parameter:
  assumes "nullish (change_target change)
     \<or> (nullish (getProp (change_target change) ''objectName'')
        \<and> nullish (getProp (change_target change) ''name''))"
  shows
    "fst (resolveObjectTarget change) = change_parameter change
   \<and> ((\<forall>pl \<in> set (model_plates updated). \<forall>obj \<in> set (plate_objects pl).
          \<not> strictEq (object_name obj) (change_parameter change)) \<longrightarrow>
        applyObjectChange rt updated change ws
          = Inr (updated,
                 ws @ [ObjectNotFoundWarning (change_parameter change) (change_parameter change)],
                 None))
   \<and> (\<forall>updated' ws' d. applyObjectChange rt updated change ws = Inr (updated', ws', Some d) \<longrightarrow>
        (\<exists>pl \<in> set (model_plates updated). \<exists>obj \<in> set (plate_objects pl).
           strictEq (object_name obj) (change_parameter change)
           \<and> diff_target d = Some (change_parameter change, plate_index pl)))"
proof -
  have name: "fst (resolveObjectTarget change) = change_parameter change"
    using assms by (rule resolveObjectTarget_fallback)
  have t: "resolveObjectTarget change = (change_parameter change, snd (resolveObjectTarget change))"
    using name by (metis prod.collapse)
  have missing: "applyObjectChange rt updated change ws
          = Inr (updated,
                 ws @ [ObjectNotFoundWarning (change_parameter change) (change_parameter change)],
                 None)"
    if "\<forall>pl \<in> set (model_plates updated). \<forall>obj \<in> set (plate_objects pl).
          \<not> strictEq (object_name obj) (change_parameter change)"
    using applyObjectChange_not_found [OF t findPlate_None_if_no_object [OF that]] .
  have applied: "\<exists>pl \<in> set (model_plates updated). \<exists>obj \<in> set (plate_objects pl).
           strictEq (object_name obj) (change_parameter change)
           \<and> diff_target d = Some (change_parameter change, plate_index pl)"
    if "applyObjectChange rt updated change ws = Inr (updated', ws', Some d)"
    for updated' ws' d
  proof -
    from applyObjectChange_diff_found [OF that] obtain i where
      i: "findPlate (model_plates updated) (change_parameter change)
              (snd (resolveObjectTarget change)) = Some i"
      and d: "diff_target d = Some (change_parameter change, plate_index (model_plates updated ! i))"
      unfolding name by blast
    from findPlate_Some_has_object [OF i] obtain obj where
      "i < length (model_plates updated)"
      "obj \<in> set (plate_objects (model_plates updated ! i))"
      "strictEq (object_name obj) (change_parameter change)"
      by blast
    then show ?thesis
      using d by (intro bexI [of _ "model_plates updated ! i"] bexI [of _ obj]) simp_all
  qed
  show ?thesis
    using name missing applied by blast
qed


theorem object_target_defaults_to_parameter_witness:
  "fst (resolveObjectTarget
      (sampleChange (JStr ''object'') JNull (JStr ''wall_line_count'') (JNum 2) (JStr ''absolute'')))
     = JStr ''wall_line_count''
   \<and> applyObjectChange sampleRuntime sampleModel
       (sampleChange (JStr ''object'') JNull (JStr ''wall_line_count'') (JNum 2) (JStr ''absolute''))
       []
     = Inr (sampleModel,
            [ObjectNotFoundWarning (JStr ''wall_line_count'') (JStr ''wall_line_count'')], None)"
proof -
  let ?c = "sampleChange (JStr ''object'') JNull (JStr ''wall_line_count'') (JNum 2)
              (JStr ''absolute'')"
  have target: "nullish (change_target ?c)
     \<or> (nullish (getProp (change_target ?c) ''objectName'')
        \<and> nullish (getProp (change_target ?c) ''name''))"
    by (simp add: sampleChange_def)
  have p: "change_parameter ?c = JStr ''wall_line_count''"
    by (simp add: sampleChange_def)
  have none: "\<forall>pl \<in> set (model_plates sampleModel). \<forall>obj \<in> set (plate_objects pl).
          \<not> strictEq (object_name obj) (change_parameter ?c)"
    by (simp add: sampleModel_def p strictEq_def)
  show ?thesis
    using object_target_defaults_to_parameter [OF target, of sampleModel sampleRuntime "[]"] none
    by (simp add: p)
qed

section \<open>No-op suppression\<close>

lemma computeNewValue_warnings:
  assumes "computeNewValue rt currentValue change ws = (proposed, ws')"
  shows "(proposed \<noteq> SameAsCurrent \<and> ws' = ws)
    \<or> (proposed = SameAsCurrent
        \<and> strictEq (change_changeType change) (JStr ''relative'')
        \<and> \<not> (isNumber currentValue \<and> isNumber (change_newValue change))
        \<and> ws' = ws @ [RelativeChangeTypeWarning (change_parameter change)])"
  using assms
  by (cases rule: computeNewValue_cases [of change currentValue rt ws]) auto

lemma ensureObjectOverride_store:
  assumes "ensureObjectOverride conv store0 objectName plateIndex = (store, key)"
  shows "key = makeObjectKey conv objectName plateIndex"
    and "\<And>k. k \<noteq> key \<Longrightarrow> store k = store0 k"
    and "\<And>r. store0 key = Some r \<Longrightarrow> store = store0"
    and "store0 key = None \<Longrightarrow>
           store key = Some \<lparr>properties = [''plateIndex'' \<mapsto> plateIndex,
                                            ''objectName'' \<mapsto> objectName],
                             prototype = ObjectPrototype\<rparr>"
  using assms
  by (auto simp: ensureObjectOverride_def Let_def split: option.splits)

text \<open>
  Claim C2, as the code has it. When the value computed for a change is strictly equal to
  the current value, no diff is recorded. A global change leaves the whole model as it was.
  An object-scoped change leaves the global settings, the plates and every existing
  override record as they were, and the whole override store when the target already has
  a record; the only key of the store that can differ is the key of the target. No warning
  is appended, except the relative-change warning when the change is relative and the
  current or the new value is not a number: that case returns the current value itself.
\<close>

theorem no_op_is_not_recorded:
  "(\<forall>currentValue setter proposed ws'.
      resolveParameter (runtime_inherited rt) (model_globalProcess updated) (change_parameter change)
        = Inr (currentValue, setter)
      \<and> currentValue \<noteq> JUndef
      \<and> computeNewValue rt currentValue change ws = (proposed, ws')
      \<and> sameAsCurrent proposed currentValue \<longrightarrow>
        applyGlobalChange rt updated change ws = Inr (updated, ws', None)
        \<and> (ws' = ws
           \<or> (proposed = SameAsCurrent
               \<and> strictEq (change_changeType change) (JStr ''relative'')
               \<and> \<not> (isNumber currentValue \<and> isNumber (change_newValue change))
               \<and> ws' = ws @ [RelativeChangeTypeWarning (change_parameter change)])))
   \<and> (\<forall>targetName plateIndex i store key currentValue setter globalValue globalSetter
        baseValue proposed ws'.
      resolveObjectTarget change = (targetName, plateIndex)
      \<and> findPlate (model_plates updated) targetName plateIndex = Some i
      \<and> ensureObjectOverride (runtime_String rt) (model_perObjectOverrides updated) targetName
           (plate_index (model_plates updated ! i)) = (store, key)
      \<and> resolveParameter (runtime_inherited rt) (recordAt store key) (change_parameter change)
           = Inr (currentValue, setter)
      \<and> resolveParameter (runtime_inherited rt) (model_globalProcess updated) (change_parameter change)
           = Inr (globalValue, globalSetter)
      \<and> baseValue = (if currentValue = JUndef then globalValue else currentValue)
      \<and> baseValue \<noteq> JUndef
      \<and> computeNewValue rt baseValue change ws = (proposed, ws')
      \<and> sameAsCurrent proposed baseValue \<longrightarrow>
        applyObjectChange rt updated change ws
          = Inr (updated\<lparr>model_perObjectOverrides := store\<rparr>, ws', None)
        \<and> (\<forall>k. k \<noteq> key \<longrightarrow> store k = model_perObjectOverrides updated k)
        \<and> (\<forall>r. model_perObjectOverrides updated key = Some r \<longrightarrow>
              store = model_perObjectOverrides updated)
        \<and> (ws' = ws
           \<or> (proposed = SameAsCurrent
               \<and> strictEq (change_changeType change) (JStr ''relative'')
               \<and> \<not> (isNumber baseValue \<and> isNumber (change_newValue change))
               \<and> ws' = ws @ [RelativeChangeTypeWarning (change_parameter change)])))"
proof (intro conjI allI impI, goal_cases)
  case (1 currentValue setter proposed ws')
  then show ?case
    using applyGlobalChange_known [of rt updated change currentValue setter ws proposed ws']
    by simp
next
  case (2 currentValue setter proposed ws')
  then show ?case
    using computeNewValue_warnings [of rt currentValue change ws proposed ws'] by blast
next
  case (3 targetName plateIndex i store key currentValue setter globalValue globalSetter
      baseValue proposed ws')
  then have found: "resolveObjectTarget change = (targetName, plateIndex)"
      "findPlate (model_plates updated) targetName plateIndex = Some i"
      "ensureObjectOverride (runtime_String rt) (model_perObjectOverrides updated) targetName
         (plate_index (model_plates updated ! i)) = (store, key)"
      "resolveParameter (runtime_inherited rt) (recordAt store key) (change_parameter change)
         = Inr (currentValue, setter)"
      "resolveParameter (runtime_inherited rt) (model_globalProcess updated) (change_parameter change)
         = Inr (globalValue, globalSetter)"
      "baseValue = (if currentValue = JUndef then globalValue else currentValue)"
      "computeNewValue rt baseValue change ws = (proposed, ws')"
    and noop: "baseValue \<noteq> JUndef" "sameAsCurrent proposed baseValue"
    by blast+
  show ?case
    unfolding applyObjectChange_found [OF found] using noop by simp
next
  case (4 targetName plateIndex i store key currentValue setter globalValue globalSetter
      baseValue proposed ws' k)
  then show ?case
    using ensureObjectOverride_store(2) [of "runtime_String rt" "model_perObjectOverrides updated" targetName
        "plate_index (model_plates updated ! i)" store key k]
    by simp
next
  case (5 targetName plateIndex i store key currentValue setter globalValue globalSetter
      baseValue proposed ws' r)
  then show ?case
    using ensureObjectOverride_store(3) [of "runtime_String rt" "model_perObjectOverrides updated" targetName
        "plate_index (model_plates updated ! i)" store key r]
    by simp
next
  case (6 targetName plateIndex i store key currentValue setter globalValue globalSetter
      baseValue proposed ws')
  then show ?case
    using computeNewValue_warnings [of rt baseValue change ws proposed ws'] by blast
qed


lemma sample_key: "makeObjectKey showValue (JStr ''CalibrationCube'') (JNum 0) = ''0::CalibrationCube''"
proof -
  have "showNat 0 = ''0''"
    by code_simp
  then show ?thesis
    by (simp add: makeObjectKey_def orElse_def String_def)
qed

lemma sample_object_noop:
  defines "c \<equiv> sampleChange (JStr ''object'')
      (JObj [(''objectName'', JStr ''CalibrationCube''), (''plateIndex'', JNum 0)])
      (JStr ''wall_line_count'') (JNum 4) (JStr ''absolute'')"
  defines "store \<equiv> [''0::CalibrationCube'' \<mapsto>
      \<lparr>properties = [''plateIndex'' \<mapsto> JNum 0, ''objectName'' \<mapsto> JStr ''CalibrationCube''],
       prototype = ObjectPrototype\<rparr>]"
  shows "resolveObjectTarget c = (JStr ''CalibrationCube'', JNum 0)"
    and "findPlate (model_plates sampleModel) (JStr ''CalibrationCube'') (JNum 0) = Some 0"
    and "ensureObjectOverride (runtime_String sampleRuntime) (model_perObjectOverrides sampleModel)
           (JStr ''CalibrationCube'') (plate_index (model_plates sampleModel ! 0))
         = (store, ''0::CalibrationCube'')"
    and "resolveParameter (runtime_inherited sampleRuntime) (recordAt store ''0::CalibrationCube'')
           (change_parameter c)
         = Inr (JUndef, \<lambda>v. writeProperty (recordAt store ''0::CalibrationCube'')
                                ''wall_line_count'' v)"
    and "resolveParameter (runtime_inherited sampleRuntime) (model_globalProcess sampleModel)
           (change_parameter c)
         = Inr (JNum 4, \<lambda>v. writeProperty (model_globalProcess sampleModel)
                                ''wall_line_count'' v)"
    and "computeNewValue sampleRuntime (JNum 4) c [] = (Proposed (JNum 4), [])"
    and "sameAsCurrent (Proposed (JNum 4)) (JNum 4)"
proof -
  show "resolveObjectTarget c = (JStr ''CalibrationCube'', JNum 0)"
    by (simp add: c_def sampleChange_def resolveObjectTarget_def getPropOpt_def orElse_def
        getKey_def)
  show "findPlate (model_plates sampleModel) (JStr ''CalibrationCube'') (JNum 0) = Some 0"
    by (simp add: sampleModel_def findPlate_def plateMatches_def strictEq_def)
  show "ensureObjectOverride (runtime_String sampleRuntime) (model_perObjectOverrides sampleModel)
           (JStr ''CalibrationCube'') (plate_index (model_plates sampleModel ! 0))
         = (store, ''0::CalibrationCube'')"
    by (simp add: sampleModel_def ensureObjectOverride_def sample_key store_def Let_def
        sample_runtime)
  have "objectInherited (JObj []) ''wall_line_count'' = JUndef"
    by (simp add: objectInherited_def objectPrototypeKeys_def)
  then show "resolveParameter (runtime_inherited sampleRuntime)
           (recordAt store ''0::CalibrationCube'') (change_parameter c)
         = Inr (JUndef, \<lambda>v. writeProperty (recordAt store ''0::CalibrationCube'')
                                ''wall_line_count'' v)"
    by (simp add: c_def sampleChange_def resolveParameter_plain recordAt_def store_def
        readProperty_def sample_runtime)
  show "resolveParameter (runtime_inherited sampleRuntime) (model_globalProcess sampleModel)
           (change_parameter c)
         = Inr (JNum 4, \<lambda>v. writeProperty (model_globalProcess sampleModel)
                                ''wall_line_count'' v)"
    by (simp add: c_def sampleChange_def resolveParameter_plain sample_globalProcess)
  show "computeNewValue sampleRuntime (JNum 4) c [] = (Proposed (JNum 4), [])"
    by (simp add: c_def sampleChange_def computeNewValue_def strictEq_def)
  show "sameAsCurrent (Proposed (JNum 4)) (JNum 4)"
    by (simp add: sameAsCurrent_def strictEq_def)
qed

theorem no_op_is_not_recorded_witness:
  "applyGlobalChange sampleRuntime sampleModel
     (sampleChange (JStr ''global'') JNull (JStr ''wall_line_count'') (JNum 4) (JStr ''absolute''))
     []
     = Inr (sampleModel, [], None)
   \<and> applyObjectChange sampleRuntime sampleModel
       (sampleChange (JStr ''object'')
          (JObj [(''objectName'', JStr ''CalibrationCube''), (''plateIndex'', JNum 0)])
          (JStr ''wall_line_count'') (JNum 4) (JStr ''absolute''))
       []
     = Inr (sampleModel\<lparr>model_perObjectOverrides :=
              [''0::CalibrationCube'' \<mapsto>
                 \<lparr>properties = [''plateIndex'' \<mapsto> JNum 0,
                                ''objectName'' \<mapsto> JStr ''CalibrationCube''],
                  prototype = ObjectPrototype\<rparr>]\<rparr>,
            [], None)"
proof -
  let ?g = "sampleChange (JStr ''global'') JNull (JStr ''wall_line_count'') (JNum 4)
              (JStr ''absolute'')"
  let ?o = "sampleChange (JStr ''object'')
          (JObj [(''objectName'', JStr ''CalibrationCube''), (''plateIndex'', JNum 0)])
          (JStr ''wall_line_count'') (JNum 4) (JStr ''absolute'')"
  let ?gp = "model_globalProcess sampleModel"
  have res: "resolveParameter (runtime_inherited sampleRuntime) ?gp (change_parameter ?g)
         = Inr (JNum 4, \<lambda>v. writeProperty ?gp ''wall_line_count'' v)"
    by (simp add: sampleChange_def resolveParameter_plain sample_globalProcess)
  have cmp: "computeNewValue sampleRuntime (JNum 4) ?g [] = (Proposed (JNum 4), [])"
    by (simp add: sampleChange_def computeNewValue_def strictEq_def)
  have same: "sameAsCurrent (Proposed (JNum 4)) (JNum 4)"
    by (simp add: sameAsCurrent_def strictEq_def)
  have "resolveParameter (runtime_inherited sampleRuntime) ?gp (change_parameter ?g)
         = Inr (JNum 4, \<lambda>v. writeProperty ?gp ''wall_line_count'' v)
      \<and> JNum 4 \<noteq> JUndef
      \<and> computeNewValue sampleRuntime (JNum 4) ?g [] = (Proposed (JNum 4), [])
      \<and> sameAsCurrent (Proposed (JNum 4)) (JNum 4)"
    using res cmp same by simp
  from no_op_is_not_recorded [THEN conjunct1, rule_format, OF this, THEN conjunct1]
  have global: "applyGlobalChange sampleRuntime sampleModel ?g [] = Inr (sampleModel, [], None)" .
  let ?store = "[''0::CalibrationCube'' \<mapsto>
      \<lparr>properties = [''plateIndex'' \<mapsto> JNum 0, ''objectName'' \<mapsto> JStr ''CalibrationCube''],
       prototype = ObjectPrototype\<rparr>]"
  have "resolveObjectTarget ?o = (JStr ''CalibrationCube'', JNum 0)
      \<and> findPlate (model_plates sampleModel) (JStr ''CalibrationCube'') (JNum 0) = Some 0
      \<and> ensureObjectOverride (runtime_String sampleRuntime) (model_perObjectOverrides sampleModel)
           (JStr ''CalibrationCube'') (plate_index (model_plates sampleModel ! 0))
         = (?store, ''0::CalibrationCube'')
      \<and> resolveParameter (runtime_inherited sampleRuntime)
           (recordAt ?store ''0::CalibrationCube'') (change_parameter ?o)
         = Inr (JUndef, \<lambda>v. writeProperty (recordAt ?store ''0::CalibrationCube'')
                                ''wall_line_count'' v)
      \<and> resolveParameter (runtime_inherited sampleRuntime) ?gp (change_parameter ?o)
         = Inr (JNum 4, \<lambda>v. writeProperty ?gp ''wall_line_count'' v)
      \<and> JNum 4 = (if JUndef = JUndef then JNum 4 else JUndef)
      \<and> JNum 4 \<noteq> JUndef
      \<and> computeNewValue sampleRuntime (JNum 4) ?o [] = (Proposed (JNum 4), [])
      \<and> sameAsCurrent (Proposed (JNum 4)) (JNum 4)"
    using sample_object_noop by simp
  from no_op_is_not_recorded [THEN conjunct2, rule_format, OF this, THEN conjunct1]
  have object: "applyObjectChange sampleRuntime sampleModel ?o []
     = Inr (sampleModel\<lparr>model_perObjectOverrides := ?store\<rparr>, [], None)" .
  show ?thesis
    using global object by (rule conjI)
qed

text \<open>
  The claim as the specification words it fails twice on the sample project: a relative
  change of the string setting \<open>infill_pattern\<close> is a no-op and yet appends a warning, and
  an object-scoped change of \<open>wall_line_count\<close> to the value it already has adds a record
  to the override store, which was empty.
\<close>

theorem no_op_warning_and_override_counterexample:
  "applyGlobalChange sampleRuntime sampleModel
     (sampleChange (JStr ''global'') JNull (JStr ''infill_pattern'') (JNum (1 / 2))
        (JStr ''relative''))
     []
     = Inr (sampleModel, [RelativeChangeTypeWarning (JStr ''infill_pattern'')], None)
   \<and> applyObjectChange sampleRuntime sampleModel
       (sampleChange (JStr ''object'')
          (JObj [(''objectName'', JStr ''CalibrationCube''), (''plateIndex'', JNum 0)])
          (JStr ''wall_line_count'') (JNum 4) (JStr ''absolute''))
       []
     = Inr (sampleModel\<lparr>model_perObjectOverrides :=
              [''0::CalibrationCube'' \<mapsto>
                 \<lparr>properties = [''plateIndex'' \<mapsto> JNum 0,
                                ''objectName'' \<mapsto> JStr ''CalibrationCube''],
                  prototype = ObjectPrototype\<rparr>]\<rparr>,
            [], None)
   \<and> model_perObjectOverrides sampleModel ''0::CalibrationCube'' = None"
proof -
  let ?r = "sampleChange (JStr ''global'') JNull (JStr ''infill_pattern'') (JNum (1 / 2))
        (JStr ''relative'')"
  let ?gp = "model_globalProcess sampleModel"
  have res: "resolveParameter (runtime_inherited sampleRuntime) ?gp (change_parameter ?r)
         = Inr (JStr ''grid'', \<lambda>v. writeProperty ?gp ''infill_pattern'' v)"
    by (simp add: sampleChange_def resolveParameter_plain sample_globalProcess)
  have cmp: "computeNewValue sampleRuntime (JStr ''grid'') ?r []
      = (SameAsCurrent, [RelativeChangeTypeWarning (JStr ''infill_pattern'')])"
    by (simp add: sampleChange_def computeNewValue_def strictEq_def)
  have "applyGlobalChange sampleRuntime sampleModel ?r []
      = Inr (sampleModel, [RelativeChangeTypeWarning (JStr ''infill_pattern'')], None)"
    using applyGlobalChange_known [OF res _ cmp] by (simp add: sameAsCurrent_def)
  moreover have "applyObjectChange sampleRuntime sampleModel
       (sampleChange (JStr ''object'')
          (JObj [(''objectName'', JStr ''CalibrationCube''), (''plateIndex'', JNum 0)])
          (JStr ''wall_line_count'') (JNum 4) (JStr ''absolute''))
       []
     = Inr (sampleModel\<lparr>model_perObjectOverrides :=
              [''0::CalibrationCube'' \<mapsto>
                 \<lparr>properties = [''plateIndex'' \<mapsto> JNum 0,
                                ''objectName'' \<mapsto> JStr ''CalibrationCube''],
                  prototype = ObjectPrototype\<rparr>]\<rparr>,
            [], None)"
    using applyObjectChange_found [OF sample_object_noop(1-5) refl] sample_object_noop(6,7)
    by simp
  moreover have "model_perObjectOverrides sampleModel ''0::CalibrationCube'' = None"
    by (simp add: sampleModel_def)
  ultimately show ?thesis
    by simp
qed
section \<open>A validated change that throws\<close>

text \<open>
  Claim C4 does not hold of the code. Validation accepts a change whose parameter is any
  truthy value, and the engine calls \<^verbatim>\<open>parameter.startsWith\<close> on it: for a parameter that
  is not a string, such as a number, the response passes \<^verbatim>\<open>parseLlmResponse\<close> and
  \<^verbatim>\<open>applyLlmChanges\<close> then throws a \<^verbatim>\<open>TypeError\<close> for every model, with the user
  settings not respected, and with them respected unless the parameter is locked.
\<close>

theorem non_string_parameter_throws:
  assumes "truthy parameter" and "\<forall>p. parameter \<noteq> JStr p" and "newValue \<noteq> JUndef"
  shows
    "parseLlmResponse jsonParse
       (JObj [(''changes'', JArr [JObj [(''parameter'', parameter), (''newValue'', newValue)]])])
       = Inr (sampleResponse
                [sampleChange (JStr ''global'') JNull parameter newValue (JStr ''absolute'')])
   \<and> applyLlmChanges rt normalized
       (sampleResponse [sampleChange (JStr ''global'') JNull parameter newValue (JStr ''absolute'')])
       False
     = Inl TypeError
   \<and> (\<not> isUserSettingLocked (runtime_String rt) parameter
           (buildUserModifiedLookup (runtime_String rt)
              (case model_userModifiedSettings normalized of None \<Rightarrow> [] | Some xs \<Rightarrow> xs)) \<longrightarrow>
       applyLlmChanges rt normalized
         (sampleResponse
            [sampleChange (JStr ''global'') JNull parameter newValue (JStr ''absolute'')])
         True
       = Inl TypeError)"
proof -
  let ?c = "sampleChange (JStr ''global'') JNull parameter newValue (JStr ''absolute'')"
  let ?L = "buildUserModifiedLookup (runtime_String rt)
              (case model_userModifiedSettings normalized of None \<Rightarrow> [] | Some xs \<Rightarrow> xs)"
  have entry: "validateChange (JObj [(''parameter'', parameter), (''newValue'', newValue)]) 0
      = Inr ?c"
    using assms(1,3)
    by (simp add: validateChange_def getKey_def orElse_def strictEq_def sampleChange_def)
  have parse: "parseLlmResponse jsonParse
       (JObj [(''changes'', JArr [JObj [(''parameter'', parameter), (''newValue'', newValue)]])])
       = Inr (sampleResponse [?c])"
    by (simp add: parseLlmResponse_def entry getKey_def orElse_def sampleResponse_def)
  have single: "applySingleChange rt updated ?c ws = Inl TypeError" for updated ws
  proof -
    have "resolveParameter (runtime_inherited rt) (model_globalProcess updated)
        (change_parameter ?c) = Inl TypeError"
      using assms(2) by (simp add: resolveParameter_Inl sampleChange_def)
    then show ?thesis
      by (simp add: applySingleChange_def applyGlobalChange_def sampleChange_def orElse_def
          strictEq_def)
  qed
  have step: "applyChange rt respect ?L st ?c = Inl TypeError"
    if "\<not> (respect \<and> isUserSettingLocked (runtime_String rt) parameter ?L)" for respect st
  proof -
    have "\<not> (respect \<and> isUserSettingLocked (runtime_String rt) (change_parameter ?c) ?L)"
      using that by (simp add: sampleChange_def)
    from applyChange_unlocked [OF this] show ?thesis
      by (simp add: single)
  qed
  have run: "applyLlmChanges rt normalized (sampleResponse [?c]) respect = Inl TypeError"
    if "\<not> (respect \<and> isUserSettingLocked (runtime_String rt) parameter ?L)" for respect
    by (simp add: applyLlmChanges_def sampleResponse_def spreadWarnings_def orElse_def
        step [OF that])
  show ?thesis
    using parse run [of False] run [of True] by simp
qed

theorem non_string_parameter_throws_witness:
  "parseLlmResponse (\<lambda>_. None)
     (JObj [(''changes'', JArr [JObj [(''parameter'', JNum 5), (''newValue'', JNum 1)]])])
     = Inr (sampleResponse
              [sampleChange (JStr ''global'') JNull (JNum 5) (JNum 1) (JStr ''absolute'')])
   \<and> applyLlmChanges sampleRuntime sampleModel
       (sampleResponse [sampleChange (JStr ''global'') JNull (JNum 5) (JNum 1) (JStr ''absolute'')])
       True
     = Inl TypeError"
proof -
  have five: "showNat 5 = ''5''"
    by code_simp
  have norm: "normalizeSettingKey showValue (JNum 5) = ''5''"
    by (simp add: normalizeSettingKey_def String_def five toLowerCase_def less_eq_char_def)
  have lookup: "buildUserModifiedLookup showValue [JStr ''fan-speed-percent'']
      = ([''fan-speed-percent''], [''fanspeedpercent''])"
    by (simp add: buildUserModifiedLookup_def addUserModified_def String_def setAdd_def
        normalize_fan)
  have unlocked: "\<not> isUserSettingLocked (runtime_String sampleRuntime) (JNum 5)
           (buildUserModifiedLookup (runtime_String sampleRuntime)
              (case model_userModifiedSettings sampleModel of None \<Rightarrow> [] | Some xs \<Rightarrow> xs))"
    by (simp add: sample_runtime sampleModel_def lookup isUserSettingLocked_def norm)
  have hyps: "truthy (JNum 5)" "\<forall>p. JNum 5 \<noteq> JStr p" "JNum 1 \<noteq> JUndef"
    by simp_all
  show ?thesis
    using non_string_parameter_throws [OF hyps, of "\<lambda>_. None" sampleRuntime sampleModel] unlocked
    by simp
qed

text \<open>
  A parameter that the settings do not hold but inherit is not unknown to the engine
  either: the sample project has no setting \<open>constructor\<close>, and the change is applied
  without a warning, from the function that \<^verbatim>\<open>Object.prototype\<close> holds under that name.
\<close>

lemma inherited_parameter_is_applied:
  "applyGlobalChange sampleRuntime sampleModel
     (sampleChange (JStr ''global'') JNull (JStr ''constructor'') (JNum 1) (JStr ''absolute''))
     []
     = Inr (sampleModel\<lparr>model_globalProcess :=
              (model_globalProcess sampleModel)
                \<lparr>properties := (properties (model_globalProcess sampleModel))
                                  (''constructor'' \<mapsto> JNum 1)\<rparr>\<rparr>,
            [],
            Some \<lparr>diff_scope = ''global'', diff_target = None,
                  diff_parameter = JStr ''constructor'', diff_from = JBuiltin ''Object'',
                  diff_to = JNum 1, diff_reason = JStr ''''\<rparr>)"
proof -
  let ?c = "sampleChange (JStr ''global'') JNull (JStr ''constructor'') (JNum 1)
              (JStr ''absolute'')"
  let ?gp = "model_globalProcess sampleModel"
  have found: "readProperty objectInherited ?gp ''constructor'' = JBuiltin ''Object''"
    by (simp add: readProperty_def sampleModel_def objectInherited_def)
  have res: "resolveParameter (runtime_inherited sampleRuntime) ?gp (change_parameter ?c)
      = Inr (JBuiltin ''Object'', \<lambda>v. writeProperty ?gp ''constructor'' v)"
    by (simp add: sampleChange_def resolveParameter_plain sample_runtime found)
  have cmp: "computeNewValue sampleRuntime (JBuiltin ''Object'') ?c [] = (Proposed (JNum 1), [])"
    by (simp add: sampleChange_def computeNewValue_def strictEq_def)
  show ?thesis
    using applyGlobalChange_known [OF res _ cmp]
    by (simp add: sameAsCurrent_def proposedValue_def strictEq_def sample_write formatDiff_def
        sampleChange_def orElse_def)
qed

text \<open>
  And a change that would apply throws when the settings of its target object are a
  primitive value that is truthy, for every parameter but \<^verbatim>\<open>__proto__\<close>.
\<close>

lemma syncPlateOverride_primitive:
  assumes "findIndex (\<lambda>item. strictEq (object_name item) objectName) (plate_objects p) = Some j"
    and "object_settings (plate_objects p ! j) = SettingsPrimitive x"
    and "truthy x" and "parameter \<noteq> ''__proto__''"
  shows "syncPlateOverride p objectName parameter v = Inl TypeError"
  using assms by (simp add: syncPlateOverride_def Let_def)
section \<open>What validation accepts\<close>

lemma validateChange_Inr:
  assumes "validateChange entry index = Inr validated"
  shows "\<not> nullish entry
    \<and> truthy (getProp entry ''parameter'')
    \<and> getProp entry ''newValue'' \<noteq> JUndef
    \<and> (change_scope validated = JStr ''global'' \<or> change_scope validated = JStr ''object'')
    \<and> change_parameter validated = getProp entry ''parameter''
    \<and> change_newValue validated = getProp entry ''newValue''
    \<and> change_changeType validated = orElse (getProp entry ''changeType'') (JStr ''absolute'')"
proof -
  have eq: "strictEq v (JStr s) \<longleftrightarrow> v = JStr s" for v s
    by (cases v) (auto simp: strictEq_def split: nonfinite.splits)
  show ?thesis
    using assms
    by (auto simp: validateChange_def Let_def eq split: if_splits)
qed

lemma validateChanges_Inr:
  assumes "validateChanges entries index = Inr validated"
  shows "length validated = length entries
    \<and> (\<forall>i < length entries. validateChange (entries ! i) (index + i) = Inr (validated ! i))"
  using assms
proof (induction entries arbitrary: index validated)
  case Nil
  then show ?case by simp
next
  case (Cons entry entries)
  from Cons.prems obtain v vs where
    v: "validateChange entry index = Inr v"
    and vs: "validateChanges entries (Suc index) = Inr vs"
    and validated: "validated = v # vs"
    by (auto split: sum.splits)
  from Cons.IH [OF vs] have len: "length vs = length entries"
    and rest: "\<And>i. i < length entries \<Longrightarrow>
      validateChange (entries ! i) (Suc index + i) = Inr (vs ! i)"
    by auto
  show ?case
  proof (intro conjI allI impI)
    show "length validated = length (entry # entries)"
      by (simp add: validated len)
  next
    fix i
    assume "i < length (entry # entries)"
    then show "validateChange ((entry # entries) ! i) (index + i) = Inr (validated ! i)"
      using v rest by (cases i) (simp_all add: validated)
  qed
qed

text \<open>
  What \<^verbatim>\<open>parseLlmResponse\<close> does check: a response is accepted only as a whole, when it
  is an object with a \<open>changes\<close> array in which every entry has a truthy parameter, a
  \<open>newValue\<close> and a scope that is absent, \<open>global\<close> or \<open>object\<close>.
\<close>

lemma parseLlmResponse_Inr:
  assumes "parseLlmResponse jsonParse content = Inr response"
  shows "\<exists>parsed entries.
      (case content of JStr s \<Rightarrow> jsonParse s = Some parsed | _ \<Rightarrow> parsed = content)
    \<and> truthy parsed \<and> isObjectType parsed
    \<and> getProp parsed ''changes'' = JArr entries
    \<and> length (response_changes response) = length entries
    \<and> (\<forall>i < length entries.
          truthy (getProp (entries ! i) ''parameter'')
        \<and> getProp (entries ! i) ''newValue'' \<noteq> JUndef
        \<and> (change_scope (response_changes response ! i) = JStr ''global''
           \<or> change_scope (response_changes response ! i) = JStr ''object''))"
proof -
  obtain parsed where parsed:
    "(case content of JStr s \<Rightarrow> jsonParse s = Some parsed | _ \<Rightarrow> parsed = content)"
    and rest: "(if \<not> truthy parsed \<or> \<not> isObjectType parsed
            then Inl (InvalidLlmResponseError MustBeObject)
          else (case getProp parsed ''changes'' of
                  JArr entries \<Rightarrow>
                    (case validateChanges entries 0 of
                       Inl e \<Rightarrow> Inl e
                     | Inr validatedChanges \<Rightarrow>
                         Inr \<lparr>response_version = orElse (getProp parsed ''version'') (JNum 1),
                              response_changes = validatedChanges,
                              response_globalRationale = getProp parsed ''globalRationale'',
                              response_warnings =
                                orElse (getProp parsed ''warnings'') (JArr [])\<rparr>)
                | _ \<Rightarrow> Inl (InvalidLlmResponseError MissingChangesArray))) = Inr response"
    using assms
    by (cases content) (auto simp: parseLlmResponse_def split: option.splits)
  from rest have ok: "truthy parsed" "isObjectType parsed"
    by (auto split: if_splits)
  with rest obtain entries where entries: "getProp parsed ''changes'' = JArr entries"
    by (cases "getProp parsed ''changes''") auto
  with rest ok obtain validated where
    validated: "validateChanges entries 0 = Inr validated"
    and changes: "response_changes response = validated"
    by (auto split: sum.splits)
  from validateChanges_Inr [OF validated] have len: "length validated = length entries"
    and each: "\<And>i. i < length entries \<Longrightarrow>
      validateChange (entries ! i) i = Inr (validated ! i)"
    by auto
  have "truthy (getProp (entries ! i) ''parameter'')
        \<and> getProp (entries ! i) ''newValue'' \<noteq> JUndef
        \<and> (change_scope (validated ! i) = JStr ''global''
           \<or> change_scope (validated ! i) = JStr ''object'')"
    if "i < length entries" for i
    using validateChange_Inr [OF each [OF that]] by blast
  then show ?thesis
    using parsed ok entries len changes by blast
qed

text \<open>
  Claim C1 fails on the code for the change type: \<^verbatim>\<open>validateChange\<close> checks the scope
  against its allowed values and copies \<open>changeType\<close> unchecked. A response whose only
  change has the change type \<open>bogus\<close> is accepted, with that change type in the result.
\<close>

theorem unrecognized_changeType_is_accepted:
  "parseLlmResponse jsonParse
     (JObj [(''changes'',
             JArr [JObj [(''parameter'', JStr ''layer_height_mm''), (''newValue'', JNum 1),
                         (''changeType'', JStr ''bogus'')]])])
     = Inr (sampleResponse
              [sampleChange (JStr ''global'') JNull (JStr ''layer_height_mm'') (JNum 1)
                 (JStr ''bogus'')])"
  by (simp add: parseLlmResponse_def validateChange_def getKey_def orElse_def strictEq_def
      sampleResponse_def sampleChange_def)

theorem unrecognized_changeType_is_accepted_witness:
  "parseLlmResponse (\<lambda>_. None)
     (JObj [(''changes'',
             JArr [JObj [(''parameter'', JStr ''layer_height_mm''), (''newValue'', JNum 1),
                         (''changeType'', JStr ''bogus'')]])])
     = Inr (sampleResponse
              [sampleChange (JStr ''global'') JNull (JStr ''layer_height_mm'') (JNum 1)
                 (JStr ''bogus'')])"
  by (rule unrecognized_changeType_is_accepted)

end
